theory Spec2Isabelle
  imports Complex_Main "HOL-Library.AList" "HOL-Library.Log_Nat"
begin

section \<open>The Kupmios provider (src/provider/kupmios.ts)\<close>

text \<open>
  The provider talks to two services: the indexer (Kupo, over HTTP) and the node bridge
  (Ogmios, one JSON-RPC message per socket). Everything it receives is JSON that
  TypeScript types as \<^verbatim>\<open>any\<close>, so the embedding works on JSON values with
  JavaScript's dynamic rules (truthiness, property access on \<^verbatim>\<open>undefined\<close>,
  \<^verbatim>\<open>BigInt\<close>, \<^verbatim>\<open>parseInt\<close>) written out. A rejected promise or a thrown
  exception is the \<open>Inl\<close> of a sum; a resolved promise is its \<open>Inr\<close>.
\<close>

subsection \<open>JavaScript values\<close>

text \<open>
  A value as \<^verbatim>\<open>JSON.parse\<close> or \<^verbatim>\<open>res.json()\<close> returns it, and \<^verbatim>\<open>undefined\<close>,
  which a missing property reads as. Conventions of the model:
  \<^item> \<open>JNum n\<close> is an integer-valued number that a double holds exactly
    (\<open>\<bar>n\<bar> \<le> 2^53 - 1\<close>): the quantities and indices of the two services. Fractions
    and larger numbers are outside the model.
  \<^item> \<open>JObj kvs\<close> lists the own enumerable properties in the engine's enumeration
    order, each key once (a lookup takes the first entry of a key).
  \<^item> strings are byte strings; the text the code inspects (field names, hex, digits,
    the cookie) is ASCII.
\<close>

datatype json =
    JUndefined
  | JNull
  | JBool bool
  | JNum int
  | JStr string
  | JArr "json list"
  | JObj "(string \<times> json) list"

text \<open>What the code throws or rejects with.\<close>

datatype error =
    TypeError
  | SyntaxError
  | RangeError
  | Error string      \<comment> \<open>\<^verbatim>\<open>new Error(message)\<close>\<close>
  | Rejected json     \<comment> \<open>\<^verbatim>\<open>rej(value)\<close> with a value of the backend\<close>
  | Transport string  \<comment> \<open>a failure of \<^verbatim>\<open>fetch\<close> or of \<^verbatim>\<open>res.json()\<close>\<close>

text \<open>Sequencing: the first exception ends the evaluation.\<close>

definition andThen :: "error + 'a \<Rightarrow> ('a \<Rightarrow> error + 'b) \<Rightarrow> error + 'b" where
  "andThen r f = (case r of Inl e \<Rightarrow> Inl e | Inr v \<Rightarrow> f v)"

fun mapM :: "('a \<Rightarrow> error + 'b) \<Rightarrow> 'a list \<Rightarrow> error + 'b list" where
  "mapM f [] = Inr []"
| "mapM f (x # xs) =
     (case f x of
        Inl e \<Rightarrow> Inl e
      | Inr y \<Rightarrow> (case mapM f xs of Inl e \<Rightarrow> Inl e | Inr ys \<Rightarrow> Inr (y # ys)))"

text \<open>\<^verbatim>\<open>ToBoolean\<close>: what \<^verbatim>\<open>if (x)\<close>, \<^verbatim>\<open>!x\<close>, \<^verbatim>\<open>x || y\<close> and \<^verbatim>\<open>x && y\<close> test.\<close>

fun truthy :: "json \<Rightarrow> bool" where
  "truthy JUndefined = False"
| "truthy JNull = False"
| "truthy (JBool b) = b"
| "truthy (JNum n) = (n \<noteq> 0)"
| "truthy (JStr s) = (s \<noteq> [])"
| "truthy (JArr xs) = True"
| "truthy (JObj kvs) = True"

fun nullish :: "json \<Rightarrow> bool" where
  "nullish JUndefined = True"
| "nullish JNull = True"
| "nullish v = False"

text \<open>\<^verbatim>\<open>x || y\<close> on values.\<close>

definition orElse :: "json \<Rightarrow> json \<Rightarrow> json" where
  "orElse x y = (if truthy x then x else y)"

subsection \<open>Decimal digits\<close>

definition digit_char :: "nat \<Rightarrow> char" where
  "digit_char d = char_of (48 + d)"

function show_nat :: "nat \<Rightarrow> string" where
  "show_nat n = (if n < 10 then [digit_char n] else show_nat (n div 10) @ [digit_char (n mod 10)])"
  by pat_completeness auto
termination
  by (relation "measure id") auto

declare show_nat.simps [simp del]

definition show_int :: "int \<Rightarrow> string" where
  "show_int i = (if i < 0 then CHR ''-'' # show_nat (nat (- i)) else show_nat (nat i))"

subsection \<open>Properties of a value\<close>

text \<open>
  The own enumerable properties: an object's members, an array's elements under their
  indices, a string's characters under theirs; a number or a boolean has none.
\<close>

fun own_entries :: "json \<Rightarrow> (string \<times> json) list" where
  "own_entries (JObj kvs) = kvs"
| "own_entries (JArr xs) = zip (map show_nat [0..<length xs]) xs"
| "own_entries (JStr s) = zip (map show_nat [0..<length s]) (map (\<lambda>c. JStr [c]) s)"
| "own_entries v = []"

text \<open>
  Reading \<^verbatim>\<open>x.f\<close> or \<^verbatim>\<open>x[f]\<close> of a value that is neither \<^verbatim>\<open>null\<close> nor
  \<^verbatim>\<open>undefined\<close>: an own property, the \<^verbatim>\<open>length\<close> of an array or a string, and
  \<^verbatim>\<open>undefined\<close> otherwise. Inherited members (\<^verbatim>\<open>constructor\<close>, \<^verbatim>\<open>toString\<close>, the
  array methods) are not modelled: the code reads the services' field names and keys it
  got from \<^verbatim>\<open>Object.keys\<close>.
\<close>

definition lookup_prop :: "json \<Rightarrow> string \<Rightarrow> json" where
  "lookup_prop x f =
     (case map_of (own_entries x) f of
        Some v \<Rightarrow> v
      | None \<Rightarrow>
          (case x of
             JArr xs \<Rightarrow> if f = ''length'' then JNum (int (length xs)) else JUndefined
           | JStr s \<Rightarrow> if f = ''length'' then JNum (int (length s)) else JUndefined
           | _ \<Rightarrow> JUndefined))"

text \<open>\<^verbatim>\<open>x.f\<close>: a TypeError on \<^verbatim>\<open>null\<close> and \<^verbatim>\<open>undefined\<close>.\<close>

definition get_prop :: "json \<Rightarrow> string \<Rightarrow> error + json" where
  "get_prop x f = (if nullish x then Inl TypeError else Inr (lookup_prop x f))"

text \<open>\<^verbatim>\<open>x?.f\<close>: \<^verbatim>\<open>undefined\<close> on \<^verbatim>\<open>null\<close> and \<^verbatim>\<open>undefined\<close>.\<close>

definition opt_prop :: "json \<Rightarrow> string \<Rightarrow> json" where
  "opt_prop x f = (if nullish x then JUndefined else lookup_prop x f)"

definition Object_keys :: "json \<Rightarrow> error + string list" where
  "Object_keys x = (if nullish x then Inl TypeError else Inr (map fst (own_entries x)))"

definition Object_values :: "json \<Rightarrow> error + json list" where
  "Object_values x = (if nullish x then Inl TypeError else Inr (map snd (own_entries x)))"

text \<open>\<^verbatim>\<open>xs[0]\<close> of an array: \<^verbatim>\<open>undefined\<close> when it is empty.\<close>

definition first_of :: "json list \<Rightarrow> json" where
  "first_of xs = (case xs of [] \<Rightarrow> JUndefined | x # _ \<Rightarrow> x)"

text \<open>
  \<^verbatim>\<open>ToString\<close>, as a template literal and \<^verbatim>\<open>parseInt\<close> apply it. An array joins
  its elements with commas, \<^verbatim>\<open>null\<close> and \<^verbatim>\<open>undefined\<close> elements as the empty string.
\<close>

fun join_commas :: "string list \<Rightarrow> string" where
  "join_commas [] = []"
| "join_commas [s] = s"
| "join_commas (s # t # ss) = s @ '','' @ join_commas (t # ss)"

fun to_string :: "json \<Rightarrow> string" where
  "to_string JUndefined = ''undefined''"
| "to_string JNull = ''null''"
| "to_string (JBool b) = (if b then ''true'' else ''false'')"
| "to_string (JNum n) = show_int n"
| "to_string (JStr s) = s"
| "to_string (JArr xs) = join_commas (map (\<lambda>x. if nullish x then [] else to_string x) xs)"
| "to_string (JObj kvs) = ''[object Object]''"

subsection \<open>Numbers\<close>

text \<open>
  A \<^verbatim>\<open>number\<close> is an IEEE binary64 value: a rational that the format holds, the two
  zeros, the infinities and NaN. \<open>Num 0\<close> is \<open>+0\<close>.
\<close>

datatype number = NaN | PosInf | NegInf | NegZero | Num rat

definition pow2 :: "int \<Rightarrow> rat" where
  "pow2 e = (if 0 \<le> e then 2 ^ nat e else 1 / 2 ^ nat (- e))"

text \<open>\<open>\<lfloor>log\<^sub>2 q\<rfloor>\<close> of a positive rational, from the bit lengths of its integer part
  or of its inverse's.\<close>

definition floor_log2 :: "rat \<Rightarrow> int" where
  "floor_log2 q = (if 1 \<le> q then bitlen \<lfloor>q\<rfloor> - 1 else - bitlen (\<lceil>1 / q\<rceil> - 1))"

definition round_half_even :: "rat \<Rightarrow> int" where
  "round_half_even q =
     (let f = \<lfloor>q\<rfloor>; r = q - of_int f
      in if r < 1 / 2 then f else if 1 / 2 < r then f + 1 else if even f then f else f + 1)"

text \<open>
  Rounding a real result to binary64, to nearest and ties to even. The result is
  \<open>m * 2^(e - 52)\<close>: \<open>e\<close> is the exponent of the value, or that of the least normal
  number for a subnormal, and \<open>m\<close> the value in units of \<open>2^(e - 52)\<close>, rounded
  (at most 53 bits; \<open>2^53\<close> when the rounding carries into the next binade). The
  largest finite double has \<open>e = 1023\<close> and \<open>m = 2^53 - 1\<close>: anything above is an
  infinity.
\<close>

definition to_double :: "rat \<Rightarrow> number" where
  "to_double q =
     (if q = 0 then Num 0
      else
        let a = \<bar>q\<bar>;
            e = max (floor_log2 a) (- 1022);
            m = round_half_even (a / pow2 (e - 52))
        in if 1024 \<le> e \<or> (e = 1023 \<and> m = 2 ^ 53) then (if q < 0 then NegInf else PosInf)
           else if m = 0 then (if q < 0 then NegZero else Num 0)
           else Num (if q < 0 then - (of_int m * pow2 (e - 52)) else of_int m * pow2 (e - 52)))"

text \<open>\<^verbatim>\<open>x / y\<close> on numbers: the special cases of IEEE division, and the quotient of
  two finite numbers other than zero, rounded (to a zero of its sign when it is too
  small, to an infinity when it is too large).\<close>

fun is_negative :: "number \<Rightarrow> bool" where
  "is_negative NegInf = True"
| "is_negative NegZero = True"
| "is_negative (Num q) = (q < 0)"
| "is_negative x = False"

fun is_zero :: "number \<Rightarrow> bool" where
  "is_zero NegZero = True"
| "is_zero (Num q) = (q = 0)"
| "is_zero x = False"

fun is_infinite :: "number \<Rightarrow> bool" where
  "is_infinite PosInf = True"
| "is_infinite NegInf = True"
| "is_infinite x = False"

definition divide_number :: "number \<Rightarrow> number \<Rightarrow> number" where
  "divide_number x y =
     (let neg = (is_negative x \<noteq> is_negative y)
      in if x = NaN \<or> y = NaN then NaN
         else if is_infinite x then (if is_infinite y then NaN else if neg then NegInf else PosInf)
         else if is_infinite y then (if neg then NegZero else Num 0)
         else if is_zero y then (if is_zero x then NaN else if neg then NegInf else PosInf)
         else if is_zero x then (if neg then NegZero else Num 0)
         else (case (x, y) of
                 (Num a, Num b) \<Rightarrow> to_double (a / b)
               | _ \<Rightarrow> NaN))"

text \<open>\<^verbatim>\<open>x === y\<close> on numbers: NaN equals nothing, the two zeros are equal.\<close>

definition strict_eq_number :: "number \<Rightarrow> number \<Rightarrow> bool" where
  "strict_eq_number x y =
     (x \<noteq> NaN \<and> y \<noteq> NaN \<and> (x = y \<or> (is_zero x \<and> is_zero y)))"

subsection \<open>Reading digits\<close>

definition digit_val :: "char \<Rightarrow> nat option" where
  "digit_val c =
     (let n = (of_char c :: nat)
      in if 48 \<le> n \<and> n \<le> 57 then Some (n - 48)
         else if 97 \<le> n \<and> n \<le> 122 then Some (n - 87)
         else if 65 \<le> n \<and> n \<le> 90 then Some (n - 55)
         else None)"

definition is_digit :: "nat \<Rightarrow> char \<Rightarrow> bool" where
  "is_digit radix c = (case digit_val c of Some d \<Rightarrow> d < radix | None \<Rightarrow> False)"

definition digits_value :: "nat \<Rightarrow> string \<Rightarrow> nat" where
  "digits_value radix s = foldl (\<lambda>acc c. acc * radix + the (digit_val c)) 0 s"

text \<open>The white space and line terminators of ASCII.\<close>

definition is_space :: "char \<Rightarrow> bool" where
  "is_space c = ((of_char c :: nat) \<in> {9, 10, 11, 12, 13, 32})"

definition starts_with :: "string \<Rightarrow> string \<Rightarrow> bool" where
  "starts_with p s = (take (length p) s = p)"

text \<open>
  \<^verbatim>\<open>parseInt(s)\<close> without a radix: leading white space goes, then a sign, then
  \<^verbatim>\<open>0x\<close> or \<^verbatim>\<open>0X\<close> (which makes the radix 16); the longest run of digits is read and
  the rest ignored; no digit gives NaN; the integer is rounded to a double and a zero
  keeps the sign.
\<close>

definition parseInt_string :: "string \<Rightarrow> number" where
  "parseInt_string inputString =
     (let s0 = dropWhile is_space inputString;
          neg = starts_with ''-'' s0;
          s1 = (if starts_with ''-'' s0 \<or> starts_with ''+'' s0 then drop 1 s0 else s0);
          hex = (starts_with ''0x'' s1 \<or> starts_with ''0X'' s1);
          radix = (if hex then 16 else 10);
          s2 = (if hex then drop 2 s1 else s1);
          z = takeWhile (is_digit radix) s2
      in if z = [] then NaN
         else
           let mathInt = digits_value radix z
           in if mathInt = 0 then (if neg then NegZero else Num 0)
              else (case to_double (of_nat mathInt) of
                      Num r \<Rightarrow> Num (if neg then - r else r)
                    | PosInf \<Rightarrow> (if neg then NegInf else PosInf)
                    | r \<Rightarrow> r))"

definition parseInt :: "json \<Rightarrow> number" where
  "parseInt v = parseInt_string (to_string v)"

text \<open>
  \<^verbatim>\<open>BigInt(v)\<close>. A string is trimmed; empty it is 0; it may be hexadecimal, octal or
  binary by its prefix, or decimal with a sign; anything else is a SyntaxError. An
  object or an array is converted through its string.
\<close>

definition trim :: "string \<Rightarrow> string" where
  "trim s = rev (dropWhile is_space (rev (dropWhile is_space s)))"

definition all_digits :: "nat \<Rightarrow> string \<Rightarrow> error + int" where
  "all_digits radix s =
     (if s \<noteq> [] \<and> list_all (is_digit radix) s then Inr (int (digits_value radix s))
      else Inl SyntaxError)"

definition BigInt_string :: "string \<Rightarrow> error + int" where
  "BigInt_string str =
     (let s = trim str
      in if s = [] then Inr 0
         else if starts_with ''0x'' s \<or> starts_with ''0X'' s then all_digits 16 (drop 2 s)
         else if starts_with ''0o'' s \<or> starts_with ''0O'' s then all_digits 8 (drop 2 s)
         else if starts_with ''0b'' s \<or> starts_with ''0B'' s then all_digits 2 (drop 2 s)
         else if starts_with ''-'' s then andThen (all_digits 10 (drop 1 s)) (\<lambda>n. Inr (- n))
         else if starts_with ''+'' s then all_digits 10 (drop 1 s)
         else all_digits 10 s)"

fun BigInt :: "json \<Rightarrow> error + int" where
  "BigInt JUndefined = Inl TypeError"
| "BigInt JNull = Inl TypeError"
| "BigInt (JBool b) = Inr (if b then 1 else 0)"
| "BigInt (JNum n) = Inr n"
| "BigInt (JStr s) = BigInt_string s"
| "BigInt v = BigInt_string (to_string v)"

section \<open>The adapter instance and its session\<close>

text \<open>
  The fields of a \<^verbatim>\<open>Kupmios\<close> instance. \<open>cfAuthorizationCookie\<close> is
  \<^verbatim>\<open>string | null\<close>, \<open>None\<close> for \<^verbatim>\<open>null\<close>, and starts as \<^verbatim>\<open>null\<close>.
\<close>

record kupmios =
  kupoUrl :: string
  ogmiosUrl :: string
  clientId :: string
  clientSecret :: string
  cfAuthorizationCookie :: "string option"

definition new_Kupmios :: "string \<Rightarrow> string \<Rightarrow> string \<Rightarrow> string \<Rightarrow> kupmios" where
  "new_Kupmios kupo ogmios cid secret =
     \<lparr>kupoUrl = kupo, ogmiosUrl = ogmios, clientId = cid, clientSecret = secret,
      cfAuthorizationCookie = None\<rparr>"

subsection \<open>The Headers object\<close>

text \<open>
  A \<^verbatim>\<open>Headers\<close> object holds names in lower case, each once, and values as
  \<^verbatim>\<open>set\<close> normalised them. \<^verbatim>\<open>headers.set(name, value)\<close> strips the HTTP white space
  (tab, line feed, carriage return, space) at both ends of the value, and throws a
  TypeError when the name is not a token or the stripped value holds a NUL, a line feed
  or a carriage return; otherwise it replaces the value of the name or adds the pair.
  (Iterating sorts the pairs by name; the code sets them in that order. It also throws
  on a character above 255, which a \<open>string\<close> here cannot hold.)
\<close>

type_synonym headers = "(string \<times> string) list"

definition is_http_whitespace :: "char \<Rightarrow> bool" where
  "is_http_whitespace c = ((of_char c :: nat) \<in> {9, 10, 13, 32})"

definition normalize_value :: "string \<Rightarrow> string" where
  "normalize_value v =
     rev (dropWhile is_http_whitespace (rev (dropWhile is_http_whitespace v)))"

definition is_header_value :: "string \<Rightarrow> bool" where
  "is_header_value v = list_all (\<lambda>c. (of_char c :: nat) \<notin> {0, 10, 13}) v"

definition is_token_char :: "char \<Rightarrow> bool" where
  "is_token_char c =
     (let n = (of_char c :: nat)
      in n = 33 \<or> (35 \<le> n \<and> n \<le> 39) \<or> n = 42 \<or> n = 43 \<or> n = 45 \<or> n = 46
         \<or> (48 \<le> n \<and> n \<le> 57) \<or> (65 \<le> n \<and> n \<le> 90) \<or> (94 \<le> n \<and> n \<le> 122)
         \<or> n = 124 \<or> n = 126)"

definition is_header_name :: "string \<Rightarrow> bool" where
  "is_header_name name = (name \<noteq> [] \<and> list_all is_token_char name)"

definition toLowerCase :: "string \<Rightarrow> string" where
  "toLowerCase s =
     map (\<lambda>c. if 65 \<le> (of_char c :: nat) \<and> (of_char c :: nat) \<le> 90
               then char_of ((of_char c :: nat) + 32) else c) s"

definition Headers_set :: "headers \<Rightarrow> string \<Rightarrow> string \<Rightarrow> error + headers" where
  "Headers_set hs name v =
     (if is_header_name name \<and> is_header_value (normalize_value v)
      then Inr (AList.update (toLowerCase name) (normalize_value v) hs)
      else Inl TypeError)"

subsection \<open>Authenticated calls\<close>

text \<open>
  \<^verbatim>\<open>getAuthHeaders\<close> (lines 42-51), starting from \<^verbatim>\<open>new Headers()\<close>.
  \<^verbatim>\<open>if (this.cfAuthorizationCookie)\<close> is false for \<^verbatim>\<open>null\<close> and for the empty
  string. An exception of \<^verbatim>\<open>set\<close> rejects the promise.
\<close>

definition getAuthHeaders :: "kupmios \<Rightarrow> error + headers" where
  "getAuthHeaders this =
     (case cfAuthorizationCookie this of
        Some c \<Rightarrow>
          if c \<noteq> [] then Headers_set [] ''Cookie'' (''CF_Authorization='' @ c)
          else andThen (Headers_set [] ''CF-Access-Client-Id'' (clientId this))
                 (\<lambda>hs. Headers_set hs ''CF-Access-Client-Secret'' (clientSecret this))
      | None \<Rightarrow>
          andThen (Headers_set [] ''CF-Access-Client-Id'' (clientId this))
            (\<lambda>hs. Headers_set hs ''CF-Access-Client-Secret'' (clientSecret this)))"




text \<open>
  \<^verbatim>\<open>authenticatedFetch\<close> (lines 53-74) is an asynchronous function: it runs to
  \<^verbatim>\<open>await fetch(...)\<close>, and goes on when the response is there. Up to the
  \<^verbatim>\<open>await\<close> it prepares the headers from the session as it is then, and sends the
  request with them (a failure of \<^verbatim>\<open>getAuthHeaders\<close> rejects the call before anything
  is sent). What is left is the resumption: given the instance as it is when the
  response arrives, it updates the session and returns the response. The callers
  pass no \<^verbatim>\<open>options\<close>; the header entries spread into the request options are keys
  \<^verbatim>\<open>fetch\<close> does not read. The request goes out with the headers as prepared, as it
  does in a runtime that lets a program set \<^verbatim>\<open>Cookie\<close> (Deno, Node).
\<close>

record request =
  req_url :: string
  req_headers :: headers








section \<open>The indexer client\<close>

text \<open>
  What the provider does not define itself:
  \<^item> \<open>http_json url\<close> is \<^verbatim>\<open>authenticatedFetch(url).then((res) => res.json())\<close>: the
    parsed body of the indexer's answer, or the failure of the request or of the
    parsing. The answer to a URL does not change while one operation runs.
  \<^item> \<open>fromUnit\<close> (utils/mod.ts, not part of the file) splits a unit into the policy id
    and the asset name, \<^verbatim>\<open>null\<close> for no name.
  \<^item> \<open>plutus_to_hex script\<close> is
    \<^verbatim>\<open>toHex(C.PlutusScript.new(fromHex(script)).to_bytes())\<close> of the ledger library,
    which may throw.
\<close>

record world =
  http_json :: "string \<Rightarrow> error + json"
  fromUnit :: "string \<Rightarrow> string \<times> string option"
  plutus_to_hex :: "json \<Rightarrow> error + string"

text \<open>\<^verbatim>\<open>getDatum\<close> (lines 229-237).\<close>

definition getDatum :: "world \<Rightarrow> kupmios \<Rightarrow> json \<Rightarrow> error + json" where
  "getDatum w this datumHash =
     andThen (http_json w (kupoUrl this @ ''/datums/'' @ to_string datumHash)) (\<lambda>result.
       if \<not> truthy result then
         Inl (Error (''No datum found for datum hash: '' @ to_string datumHash))
       else
         andThen (get_prop result ''datum'') (\<lambda>d.
           if \<not> truthy d then
             Inl (Error (''No datum found for datum hash: '' @ to_string datumHash))
           else get_prop result ''datum''))"

subsection \<open>Normalising the indexer's matches\<close>

text \<open>
  The canonical output. \<^verbatim>\<open>OutRef\<close> is the part of it that names an output. What the
  normaliser stores was read from JSON, so its fields are values; an \<^verbatim>\<open>OutRef\<close> of
  a caller has a string for the hash. \<open>assets\<close> is the \<^verbatim>\<open>Assets\<close> object by its
  entries, in the order the keys were first assigned.
\<close>

record 'h outRef =
  txHash :: 'h
  outputIndex :: number

record utxo = "json outRef" +
  address :: json
  assets :: "(string \<times> int) list"
  datumHash :: json
  datum :: json
  scriptRef :: json

text \<open>\<^verbatim>\<open>unit.replace(".", "")\<close>: the first full stop goes.\<close>

fun remove_first_dot :: "string \<Rightarrow> string" where
  "remove_first_dot [] = []"
| "remove_first_dot (c # cs) = (if c = CHR ''.'' then cs else c # remove_first_dot cs)"

text \<open>The \<^verbatim>\<open>forEach\<close> of lines 288-290, one key after the other.\<close>

fun add_assets :: "json \<Rightarrow> string list \<Rightarrow> (string \<times> int) list \<Rightarrow> error + (string \<times> int) list" where
  "add_assets utxo [] a = Inr a"
| "add_assets utxo (unit # units) a =
     andThen (get_prop utxo ''value'') (\<lambda>v.
     andThen (get_prop v ''assets'') (\<lambda>as.
     andThen (get_prop as unit) (\<lambda>q.
     andThen (BigInt q) (\<lambda>n.
       add_assets utxo units (AList.update (remove_first_dot unit) n a)))))"

text \<open>The function called at once of lines 286-292.\<close>

definition assets_of :: "json \<Rightarrow> error + (string \<times> int) list" where
  "assets_of utxo =
     andThen (get_prop utxo ''value'') (\<lambda>v.
     andThen (get_prop v ''coins'') (\<lambda>coins.
     andThen (BigInt coins) (\<lambda>lovelace.
     andThen (get_prop utxo ''value'') (\<lambda>v'.
     andThen (get_prop v' ''assets'') (\<lambda>as.
     andThen (Object_keys as) (\<lambda>units.
       add_assets utxo units [(''lovelace'', lovelace)]))))))"

text \<open>
  The asynchronous function called at once of lines 300-318, run when
  \<^verbatim>\<open>utxo.script_hash\<close> is truthy. Destructuring the answer throws on \<^verbatim>\<open>null\<close>; a
  language that is none of the three falls off the end of the function, which then
  returns \<^verbatim>\<open>undefined\<close>.
\<close>

definition fetch_script :: "world \<Rightarrow> kupmios \<Rightarrow> json \<Rightarrow> error + json" where
  "fetch_script w this utxo =
     andThen (get_prop utxo ''script_hash'') (\<lambda>h.
     andThen (http_json w (kupoUrl this @ ''/scripts/'' @ to_string h)) (\<lambda>r.
     andThen (get_prop r ''script'') (\<lambda>script.
     andThen (get_prop r ''language'') (\<lambda>language.
       if language = JStr ''native'' then
         Inr (JObj [(''type'', JStr ''Native''), (''script'', script)])
       else if language = JStr ''plutus:v1'' then
         andThen (plutus_to_hex w script) (\<lambda>hex.
           Inr (JObj [(''type'', JStr ''PlutusV1''), (''script'', JStr hex)]))
       else if language = JStr ''plutus:v2'' then
         andThen (plutus_to_hex w script) (\<lambda>hex.
           Inr (JObj [(''type'', JStr ''PlutusV2''), (''script'', JStr hex)]))
       else Inr JUndefined))))"

text \<open>
  The function mapped over the matches (lines 281-320): the fields of the object
  literal are evaluated in the order they are written. \<^verbatim>\<open>x && y\<close> is \<open>x\<close> itself when
  \<open>x\<close> is falsy.
\<close>

definition kupmiosUtxoToUtxo :: "world \<Rightarrow> kupmios \<Rightarrow> json \<Rightarrow> error + utxo" where
  "kupmiosUtxoToUtxo w this utxo =
     andThen (get_prop utxo ''transaction_id'') (\<lambda>transaction_id.
     andThen (get_prop utxo ''output_index'') (\<lambda>output_index.
     andThen (get_prop utxo ''address'') (\<lambda>addr.
     andThen (assets_of utxo) (\<lambda>a.
     andThen (if opt_prop utxo ''datum_type'' = JStr ''hash'' then get_prop utxo ''datum_hash''
              else Inr JNull) (\<lambda>dh.
     andThen (if opt_prop utxo ''datum_type'' = JStr ''inline'' then
                andThen (get_prop utxo ''datum_hash'') (getDatum w this)
              else Inr JNull) (\<lambda>d.
     andThen (andThen (get_prop utxo ''script_hash'') (\<lambda>script_hash.
                if truthy script_hash then fetch_script w this utxo else Inr script_hash)) (\<lambda>sr.
       Inr \<lparr>txHash = transaction_id, outputIndex = parseInt output_index, address = addr,
            assets = a, datumHash = dh, datum = d, scriptRef = sr\<rparr>)))))))"

text \<open>
  \<^verbatim>\<open>kupmiosUtxosToUtxos\<close> (lines 278-322). \<^verbatim>\<open>.map\<close> exists on an array only.
  \<^verbatim>\<open>Promise.all\<close> keeps the order of the input; when several records fail, the model
  reports the failure of the first of them.
\<close>

definition kupmiosUtxosToUtxos :: "world \<Rightarrow> kupmios \<Rightarrow> json \<Rightarrow> error + utxo list" where
  "kupmiosUtxosToUtxos w this utxos =
     (case utxos of
        JArr records \<Rightarrow> mapM (kupmiosUtxoToUtxo w this) records
      | _ \<Rightarrow> Inl TypeError)"

subsection \<open>The queries\<close>

text \<open>\<^verbatim>\<open>getUtxoByUnit\<close> (lines 159-174). \<^verbatim>\<open>utxos[0]\<close> of an empty array is
  \<^verbatim>\<open>undefined\<close>, here \<open>None\<close>.\<close>

definition unit_url :: "world \<Rightarrow> kupmios \<Rightarrow> string \<Rightarrow> string" where
  "unit_url w this unit =
     (let (policyId, assetName) = fromUnit w unit
      in kupoUrl this @ ''/matches/'' @ policyId @ ''.'' @
           (case assetName of
              Some n \<Rightarrow> if n \<noteq> [] then n else ''*''
            | None \<Rightarrow> ''*'') @ ''?unspent'')"

definition getUtxoByUnit :: "world \<Rightarrow> kupmios \<Rightarrow> string \<Rightarrow> error + utxo option" where
  "getUtxoByUnit w this unit =
     andThen (http_json w (unit_url w this unit)) (\<lambda>result.
     andThen (kupmiosUtxosToUtxos w this result) (\<lambda>utxos.
       if 1 < length utxos then
         Inl (Error ''Unit needs to be an NFT or only held by one address.'')
       else Inr (case utxos of [] \<Rightarrow> None | u # _ \<Rightarrow> Some u)))"

text \<open>\<^verbatim>\<open>[...new Set(xs)]\<close>: each element once, in the order of first insertion.\<close>

definition array_of_Set :: "'a list \<Rightarrow> 'a list" where
  "array_of_Set xs = foldl (\<lambda>acc x. if x \<in> set acc then acc else acc @ [x]) [] xs"

text \<open>\<^verbatim>\<open>getUtxosByOutRef\<close> (lines 176-197).\<close>

definition queryHashes :: "string outRef list \<Rightarrow> string list" where
  "queryHashes outRefs = array_of_Set (map txHash outRefs)"

definition matches_url :: "kupmios \<Rightarrow> string \<Rightarrow> string" where
  "matches_url this h = kupoUrl this @ ''/matches/*@'' @ h @ ''?unspent''"

definition requested :: "string outRef list \<Rightarrow> utxo \<Rightarrow> bool" where
  "requested outRefs u =
     list_ex (\<lambda>outRef. txHash u = JStr (txHash outRef)
                \<and> strict_eq_number (outputIndex u) (outputIndex outRef)) outRefs"

text \<open>The function mapped over the hashes (lines 180-185): the outputs of one
  transaction, as the indexer lists them.\<close>

definition utxosOfTx :: "world \<Rightarrow> kupmios \<Rightarrow> string \<Rightarrow> error + utxo list" where
  "utxosOfTx w this h =
     andThen (http_json w (matches_url this h)) (kupmiosUtxosToUtxos w this)"

definition getUtxosByOutRef :: "world \<Rightarrow> kupmios \<Rightarrow> string outRef list \<Rightarrow> error + utxo list" where
  "getUtxosByOutRef w this outRefs =
     andThen (mapM (utxosOfTx w this) (queryHashes outRefs)) (\<lambda>utxos.
       Inr (filter (requested outRefs) (concat utxos)))"

section \<open>The node bridge client\<close>

text \<open>
  A call opens a socket, sends one request and settles on the first message. The
  definitions below are the listeners: what the call settles to, given the value
  \<^verbatim>\<open>JSON.parse(msg.data)\<close> returned. (Text that does not parse rejects the call
  with the SyntaxError of \<^verbatim>\<open>JSON.parse\<close>; a socket that never opens or never answers
  leaves it pending.)
\<close>

text \<open>\<^verbatim>\<open>x.f1.f2...\<close>\<close>

fun path :: "json \<Rightarrow> string list \<Rightarrow> error + json" where
  "path x [] = Inr x"
| "path x (f # fs) = andThen (get_prop x f) (\<lambda>y. path y fs)"

text \<open>\<^verbatim>\<open>submitTx\<close>, the listener of lines 262-271.\<close>

definition submitTx :: "json \<Rightarrow> error + json" where
  "submitTx msg =
     andThen (get_prop msg ''result'') (\<lambda>result.
     andThen (get_prop msg ''error'') (\<lambda>err.
       if truthy (opt_prop result ''transaction'') then path result [''transaction'', ''id'']
       else Inl (Rejected err)))"

text \<open>
  The listener of \<^verbatim>\<open>getDelegation\<close>, lines 208-222, with its \<^verbatim>\<open>try\<close> and \<^verbatim>\<open>catch\<close>:
  whatever the body throws rejects the call. In \<^verbatim>\<open>delegation?.delegate.id\<close> only
  \<^verbatim>\<open>delegation\<close> is guarded: when it is \<^verbatim>\<open>null\<close> or \<^verbatim>\<open>undefined\<close> the whole chain is
  \<^verbatim>\<open>undefined\<close>, otherwise \<^verbatim>\<open>.delegate.id\<close> is read as usual, and reading \<^verbatim>\<open>.id\<close> of
  \<^verbatim>\<open>undefined\<close> throws. The fallback \<^verbatim>\<open>{}\<close> of line 211 is an object, not \<^verbatim>\<open>undefined\<close>.
\<close>

record delegation =
  poolId :: json
  rewards :: int

definition getDelegation_listener :: "json \<Rightarrow> error + delegation" where
  "getDelegation_listener msg =
     andThen (get_prop msg ''result'') (\<lambda>result.
     andThen (if truthy result then andThen (Object_values result) (\<lambda>vs. Inr (first_of vs))
              else Inr (JObj [])) (\<lambda>d.
     andThen (if nullish d then Inr JUndefined else path d [''delegate'', ''id'']) (\<lambda>pool.
     andThen (if nullish d then Inr JUndefined else path d [''rewards'', ''ada'', ''lovelace'']) (\<lambda>lovelace.
     andThen (BigInt (orElse lovelace (JNum 0))) (\<lambda>r.
       Inr \<lparr>poolId = orElse pool JNull, rewards = r\<rparr>)))))"

text \<open>
  \<^verbatim>\<open>rpc\<close> (lines 324-340) prepares the headers, opens the socket with them and sends
  one request. The node bridge is a function \<open>ogmios\<close>: given the headers of the
  handshake and the request, the first message it sends back, parsed.
\<close>

type_synonym bridge = "headers \<Rightarrow> json \<Rightarrow> json"

definition rpc :: "bridge \<Rightarrow> kupmios \<Rightarrow> string \<Rightarrow> json \<Rightarrow> error + json" where
  "rpc ogmios this method params =
     andThen (getAuthHeaders this) (\<lambda>headers.
       Inr (ogmios headers
              (JObj [(''jsonrpc'', JStr ''2.0''), (''method'', JStr method), (''params'', params)])))"

text \<open>\<^verbatim>\<open>getDelegation\<close> (lines 199-227): the request names the one reward address.\<close>

definition getDelegation :: "bridge \<Rightarrow> kupmios \<Rightarrow> string \<Rightarrow> error + delegation" where
  "getDelegation ogmios this rewardAddress =
     andThen (rpc ogmios this ''queryLedgerState/rewardAccountSummaries''
                (JObj [(''keys'', JArr [JStr rewardAddress])]))
       getDelegation_listener"

subsection \<open>Protocol parameters\<close>

text \<open>\<^verbatim>\<open>s.split(sep)\<close> for a separator of one character.\<close>

fun split_on :: "char \<Rightarrow> string \<Rightarrow> string list" where
  "split_on sep [] = [[]]"
| "split_on sep (c # cs) =
     (if c = sep then [] # split_on sep cs
      else (case split_on sep cs of p # ps \<Rightarrow> (c # p) # ps | [] \<Rightarrow> [[c]]))"

text \<open>\<^verbatim>\<open>v.split(sep)\<close> on a value: only a string has the method.\<close>

definition split_value :: "json \<Rightarrow> char \<Rightarrow> error + string list" where
  "split_value v sep = (case v of JStr s \<Rightarrow> Inr (split_on sep s) | _ \<Rightarrow> Inl TypeError)"

text \<open>\<^verbatim>\<open>parts[i]\<close>, also what destructuring \<^verbatim>\<open>[a, b] = parts\<close> binds.\<close>

definition part :: "string list \<Rightarrow> nat \<Rightarrow> json" where
  "part parts i = (if i < length parts then JStr (parts ! i) else JUndefined)"

definition toUpperCase :: "string \<Rightarrow> string" where
  "toUpperCase s =
     map (\<lambda>c. if 97 \<le> (of_char c :: nat) \<and> (of_char c :: nat) \<le> 122
               then char_of ((of_char c :: nat) - 32) else c) s"

text \<open>The \<^verbatim>\<open>forEach\<close> of lines 88-92.\<close>

fun add_costModels :: "json \<Rightarrow> string list \<Rightarrow> (string \<times> json) list \<Rightarrow> error + (string \<times> json) list" where
  "add_costModels result [] costModels = Inr costModels"
| "add_costModels result (v # vs) costModels =
     (case part (split_on CHR '':'' v) 1 of
        JStr version \<Rightarrow>
          andThen (path result [''plutusCostModels'', v]) (\<lambda>m.
            add_costModels result vs (AList.update (''Plutus'' @ toUpperCase version) m costModels))
      | _ \<Rightarrow> Inl TypeError)"

text \<open>Lines 105 and 106: \<^verbatim>\<open>parseInt(num) / parseInt(denom)\<close> of the two parts
  that the destructuring of the split string binds.\<close>

definition ratio_of :: "string list \<Rightarrow> number" where
  "ratio_of parts = divide_number (parseInt (part parts 0)) (parseInt (part parts 1))"

record protocolParameters =
  minFeeA :: number
  minFeeB :: number
  maxTxSize :: number
  maxValSize :: number
  keyDeposit :: int
  poolDeposit :: int
  priceMem :: number
  priceStep :: number
  maxTxExMem :: int
  maxTxExSteps :: int
  coinsPerUtxoByte :: int
  collateralPercentage :: number
  maxCollateralInputs :: number
  costModels :: "(string \<times> json) list"
  minfeeRefscriptCostPerByte :: number

text \<open>\<^verbatim>\<open>getProtocolParameters\<close>, the listener of lines 82-120.\<close>

definition getProtocolParameters :: "json \<Rightarrow> error + protocolParameters" where
  "getProtocolParameters msg =
     andThen (get_prop msg ''result'') (\<lambda>result.
     andThen (andThen (get_prop result ''plutusCostModels'') Object_keys) (\<lambda>versions.
     andThen (add_costModels result versions []) (\<lambda>cm.
     andThen (andThen (path result [''scriptExecutionPrices'', ''memory''])
                (\<lambda>m. split_value m CHR ''/'')) (\<lambda>mem.
     andThen (andThen (path result [''scriptExecutionPrices'', ''cpu''])
                (\<lambda>c. split_value c CHR ''/'')) (\<lambda>steps.
     andThen (get_prop result ''minFeeCoefficient'') (\<lambda>feeA.
     andThen (path result [''minFeeConstant'', ''ada'', ''lovelace'']) (\<lambda>feeB.
     andThen (path result [''maxTransactionSize'', ''bytes'']) (\<lambda>txSize.
     andThen (path result [''maxValueSize'', ''bytes'']) (\<lambda>valSize.
     andThen (andThen (path result [''stakeCredentialDeposit'', ''ada'', ''lovelace'']) BigInt) (\<lambda>keyDep.
     andThen (andThen (path result [''stakePoolDeposit'', ''ada'', ''lovelace'']) BigInt) (\<lambda>poolDep.
     andThen (andThen (path result [''maxExecutionUnitsPerTransaction'', ''memory'']) BigInt) (\<lambda>exMem.
     andThen (andThen (path result [''maxExecutionUnitsPerTransaction'', ''cpu'']) BigInt) (\<lambda>exSteps.
     andThen (andThen (get_prop result ''minUtxoDepositCoefficient'') BigInt) (\<lambda>coins.
     andThen (get_prop result ''collateralPercentage'') (\<lambda>collPct.
     andThen (get_prop result ''maxCollateralInputs'') (\<lambda>collInputs.
     andThen (path result [''minFeeReferenceScripts'', ''base'']) (\<lambda>refBase.
       Inr \<lparr>minFeeA = parseInt feeA,
            minFeeB = parseInt feeB,
            maxTxSize = parseInt txSize,
            maxValSize = parseInt valSize,
            keyDeposit = keyDep,
            poolDeposit = poolDep,
            priceMem = ratio_of mem,
            priceStep = ratio_of steps,
            maxTxExMem = exMem,
            maxTxExSteps = exSteps,
            coinsPerUtxoByte = coins,
            collateralPercentage = parseInt collPct,
            maxCollateralInputs = parseInt collInputs,
            costModels = cm,
            minfeeRefscriptCostPerByte = parseInt refBase\<rparr>)))))))))))))))))"

section \<open>Notions of the specification\<close>

text \<open>
  The properties below speak of what a response carries and of what was asked for;
  these definitions say it in terms of the values above.
\<close>

text \<open>The datum body of an answer of \<^verbatim>\<open>/datums/{hash}\<close>: the member \<^verbatim>\<open>datum\<close> of an
  object, when it is not empty (\<^verbatim>\<open>null\<close>, \<^verbatim>\<open>false\<close>, \<^verbatim>\<open>0\<close> or \<^verbatim>\<open>""\<close>).\<close>

definition datum_body :: "json \<Rightarrow> json option" where
  "datum_body answer =
     (case answer of
        JObj kvs \<Rightarrow>
          (case map_of kvs ''datum'' of
             Some d \<Rightarrow> if truthy d then Some d else None
           | None \<Rightarrow> None)
      | _ \<Rightarrow> None)"











text \<open>The two header sets of section 4.1, as the \<^verbatim>\<open>Headers\<close> object holds them.\<close>

definition client_headers :: "kupmios \<Rightarrow> headers" where
  "client_headers this =
     [(''cf-access-client-id'', normalize_value (clientId this)),
      (''cf-access-client-secret'', normalize_value (clientSecret this))]"


text \<open>A field is populated when it holds a value: neither \<^verbatim>\<open>null\<close> nor
  \<^verbatim>\<open>undefined\<close>.\<close>

definition populated :: "json \<Rightarrow> bool" where
  "populated v = (\<not> nullish v)"

text \<open>The (transaction hash, output index) pair of an output.\<close>

definition outRef_of :: "utxo \<Rightarrow> json \<times> number" where
  "outRef_of u = (txHash u, outputIndex u)"

section \<open>An indexer and a node bridge to run the code on\<close>

definition demo_kupmios :: kupmios where
  "demo_kupmios = new_Kupmios ''http://kupo'' ''ws://ogmios'' ''id'' ''secret''"

text \<open>Three matches: one with no datum, one with a datum hash, one with an inline datum
  and a script in a language the provider does not know.\<close>

definition demo_plain :: json where
  "demo_plain =
     JObj [(''transaction_id'', JStr ''t1''), (''output_index'', JNum 0),
           (''address'', JStr ''addr1''),
           (''value'', JObj [(''coins'', JNum 2000000), (''assets'', JObj [])]),
           (''datum_hash'', JNull), (''script_hash'', JNull)]"

definition demo_hash :: json where
  "demo_hash =
     JObj [(''transaction_id'', JStr ''t1''), (''output_index'', JNum 1),
           (''address'', JStr ''addr2''),
           (''value'', JObj [(''coins'', JNum 1500000), (''assets'', JObj [(''p1.6e'', JNum 1)])]),
           (''datum_hash'', JStr ''d0''), (''datum_type'', JStr ''hash''),
           (''script_hash'', JNull)]"

definition demo_inline :: json where
  "demo_inline =
     JObj [(''transaction_id'', JStr ''t2''), (''output_index'', JNum 0),
           (''address'', JStr ''addr3''),
           (''value'', JObj [(''coins'', JNum 3000000), (''assets'', JObj [])]),
           (''datum_hash'', JStr ''d1''), (''datum_type'', JStr ''inline''),
           (''script_hash'', JStr ''s9'')]"

text \<open>A match with an inline datum under a hash for which the indexer has no datum, and
  a match of datum type \<^verbatim>\<open>hash\<close> whose \<^verbatim>\<open>datum_hash\<close> is \<^verbatim>\<open>null\<close>.\<close>

definition demo_lost :: json where
  "demo_lost =
     JObj [(''transaction_id'', JStr ''t4''), (''output_index'', JNum 0),
           (''address'', JStr ''addr4''),
           (''value'', JObj [(''coins'', JNum 1000000), (''assets'', JObj [(''p4.6e'', JNum 1)])]),
           (''datum_hash'', JStr ''d0''), (''datum_type'', JStr ''inline''),
           (''script_hash'', JNull)]"

definition demo_unhashed :: json where
  "demo_unhashed =
     JObj [(''transaction_id'', JStr ''t5''), (''output_index'', JNum 0),
           (''address'', JStr ''addr5''),
           (''value'', JObj [(''coins'', JNum 1000000), (''assets'', JObj [])]),
           (''datum_hash'', JNull), (''datum_type'', JStr ''hash''),
           (''script_hash'', JNull)]"

definition demo_answers :: "(string \<times> json) list" where
  "demo_answers =
     [(''http://kupo/matches/*@t1?unspent'', JArr [demo_plain, demo_hash]),
      (''http://kupo/matches/*@t2?unspent'', JArr [demo_inline]),
      (''http://kupo/datums/d1'', JObj [(''datum'', JStr ''d87980'')]),
      (''http://kupo/datums/d0'', JNull),
      (''http://kupo/scripts/s9'',
         JObj [(''script'', JStr ''4e4d01''), (''language'', JStr ''plutus:v3'')]),
      (''http://kupo/matches/p1.6e?unspent'', JArr [demo_hash]),
      (''http://kupo/matches/p2.*?unspent'', JArr [demo_plain, demo_hash]),
      (''http://kupo/matches/p3.*?unspent'', JArr []),
      (''http://kupo/matches/p4.6e?unspent'', JArr [demo_lost]),
      (''http://kupo/matches/p5.*?unspent'', JArr [demo_lost, demo_plain])]"

text \<open>The indexer answers the URLs above; the stand-in for \<open>fromUnit\<close> cuts a unit
  after two characters where the library cuts after the 56 of a policy id.\<close>

definition demo_world :: world where
  "demo_world =
     \<lparr>http_json = (\<lambda>url. case map_of demo_answers url of
                         Some r \<Rightarrow> Inr r
                       | None \<Rightarrow> Inl (Transport ''no answer'')),
      fromUnit = (\<lambda>unit. (take 2 unit, if drop 2 unit = [] then None else Some (drop 2 unit))),
      plutus_to_hex = (\<lambda>script. case script of JStr s \<Rightarrow> Inr s | _ \<Rightarrow> Inl TypeError)\<rparr>"

definition demo_utxo_plain :: utxo where
  "demo_utxo_plain =
     \<lparr>txHash = JStr ''t1'', outputIndex = Num 0, address = JStr ''addr1'',
      assets = [(''lovelace'', 2000000)], datumHash = JNull, datum = JNull,
      scriptRef = JNull\<rparr>"

definition demo_utxo_hash :: utxo where
  "demo_utxo_hash =
     \<lparr>txHash = JStr ''t1'', outputIndex = Num 1, address = JStr ''addr2'',
      assets = [(''lovelace'', 1500000), (''p16e'', 1)], datumHash = JStr ''d0'',
      datum = JNull, scriptRef = JNull\<rparr>"

definition demo_utxo_unhashed :: utxo where
  "demo_utxo_unhashed =
     \<lparr>txHash = JStr ''t5'', outputIndex = Num 0, address = JStr ''addr5'',
      assets = [(''lovelace'', 1000000)], datumHash = JNull, datum = JNull,
      scriptRef = JNull\<rparr>"

definition demo_utxo_inline :: utxo where
  "demo_utxo_inline =
     \<lparr>txHash = JStr ''t2'', outputIndex = Num 0, address = JStr ''addr3'',
      assets = [(''lovelace'', 3000000)], datumHash = JNull, datum = JStr ''d87980'',
      scriptRef = JUndefined\<rparr>"

text \<open>Four references: two name the same output, one names an output that is not
  there.\<close>

definition demo_refs :: "string outRef list" where
  "demo_refs =
     [\<lparr>txHash = ''t1'', outputIndex = Num 1\<rparr>, \<lparr>txHash = ''t2'', outputIndex = Num 0\<rparr>,
      \<lparr>txHash = ''t1'', outputIndex = Num 1\<rparr>, \<lparr>txHash = ''t1'', outputIndex = Num 7\<rparr>]"






text \<open>Messages of the node bridge.\<close>

definition demo_parameters :: json where
  "demo_parameters =
     JObj [(''jsonrpc'', JStr ''2.0''),
       (''method'', JStr ''queryLedgerState/protocolParameters''),
       (''result'', JObj [
          (''minFeeCoefficient'', JNum 44),
          (''minFeeConstant'', JObj [(''ada'', JObj [(''lovelace'', JNum 155381)])]),
          (''maxTransactionSize'', JObj [(''bytes'', JNum 16384)]),
          (''maxValueSize'', JObj [(''bytes'', JNum 5000)]),
          (''stakeCredentialDeposit'', JObj [(''ada'', JObj [(''lovelace'', JNum 2000000)])]),
          (''stakePoolDeposit'', JObj [(''ada'', JObj [(''lovelace'', JNum 500000000)])]),
          (''scriptExecutionPrices'',
             JObj [(''memory'', JStr ''577/10000''), (''cpu'', JStr ''2/1'')]),
          (''maxExecutionUnitsPerTransaction'',
             JObj [(''memory'', JNum 14000000), (''cpu'', JNum 10000000000)]),
          (''minUtxoDepositCoefficient'', JNum 4310),
          (''collateralPercentage'', JNum 150),
          (''maxCollateralInputs'', JNum 3),
          (''plutusCostModels'',
             JObj [(''plutus:v1'', JArr [JNum 100788, JNum 420]),
                   (''plutus:v2'', JArr [JNum 100788])]),
          (''minFeeReferenceScripts'', JObj [(''base'', JNum 15)])])]"

definition demo_parameters_result :: protocolParameters where
  "demo_parameters_result =
     \<lparr>minFeeA = Num 44, minFeeB = Num 155381, maxTxSize = Num 16384, maxValSize = Num 5000,
      keyDeposit = 2000000, poolDeposit = 500000000,
      priceMem = Num (2078861587994221 / 2 ^ 55), priceStep = Num 2,
      maxTxExMem = 14000000, maxTxExSteps = 10000000000, coinsPerUtxoByte = 4310,
      collateralPercentage = Num 150, maxCollateralInputs = Num 3,
      costModels = [(''PlutusV1'', JArr [JNum 100788, JNum 420]),
                    (''PlutusV2'', JArr [JNum 100788])],
      minfeeRefscriptCostPerByte = Num 15\<rparr>"

definition demo_submitted :: "(string \<times> json) list" where
  "demo_submitted =
     [(''jsonrpc'', JStr ''2.0''), (''method'', JStr ''submitTransaction''),
      (''result'', JObj [(''transaction'', JObj [(''id'', JStr ''4f539156'')])])]"

definition demo_refused :: "(string \<times> json) list" where
  "demo_refused =
     [(''jsonrpc'', JStr ''2.0''), (''method'', JStr ''submitTransaction''),
      (''error'', JObj [(''code'', JNum 3005), (''message'', JStr ''Unknown era'')])]"

definition demo_undelegated :: "(string \<times> json) list" where
  "demo_undelegated =
     [(''jsonrpc'', JStr ''2.0''), (''method'', JStr ''queryLedgerState/rewardAccountSummaries''),
      (''result'', JObj [])]"

definition demo_delegated :: "(string \<times> json) list" where
  "demo_delegated =
     [(''jsonrpc'', JStr ''2.0''), (''method'', JStr ''queryLedgerState/rewardAccountSummaries''),
      (''result'', JObj [(''stake1u9'',
         JObj [(''delegate'', JObj [(''id'', JStr ''pool1q'')]),
               (''rewards'', JObj [(''ada'', JObj [(''lovelace'', JNum 42)])])])])]"

text \<open>Two more: the summary of a registered address that delegates to no pool, and
  the bridge's refusal of a query.\<close>

definition demo_idle :: "(string \<times> json) list" where
  "demo_idle =
     [(''jsonrpc'', JStr ''2.0''), (''method'', JStr ''queryLedgerState/rewardAccountSummaries''),
      (''result'', JObj [(''stake1idle'',
         JObj [(''rewards'', JObj [(''ada'', JObj [(''lovelace'', JNum 0)])])])])]"

definition demo_failed :: "(string \<times> json) list" where
  "demo_failed =
     [(''jsonrpc'', JStr ''2.0''), (''method'', JStr ''queryLedgerState/rewardAccountSummaries''),
      (''error'', JObj [(''code'', JNum 2001), (''message'', JStr ''era mismatch'')])]"

text \<open>A bridge that knows three reward addresses and refuses every other query.\<close>

definition demo_ogmios :: bridge where
  "demo_ogmios headers request =
     (if lookup_prop request ''params'' = JObj [(''keys'', JArr [JStr ''stake1u9''])]
        then JObj demo_delegated
      else if lookup_prop request ''params'' = JObj [(''keys'', JArr [JStr ''stake1new''])]
        then JObj demo_undelegated
      else if lookup_prop request ''params'' = JObj [(''keys'', JArr [JStr ''stake1idle''])]
        then JObj demo_idle
      else JObj demo_failed)"

section \<open>Basic facts\<close>

lemma andThen_Inr [simp]: "andThen (Inr v) f = f v"
  by (simp add: andThen_def)

lemma andThen_Inl [simp]: "andThen (Inl e) f = Inl e"
  by (simp add: andThen_def)

lemma andThenE:
  assumes "andThen r f = Inr y"
  obtains v where "r = Inr v" and "f v = Inr y"
  using assms by (cases r) simp_all

lemma andThen_eq_Inr: "andThen r f = Inr y \<longleftrightarrow> (\<exists>v. r = Inr v \<and> f v = Inr y)"
  by (cases r) simp_all

lemma lookup_prop_obj [simp]:
  "lookup_prop (JObj kvs) f = (case map_of kvs f of Some v \<Rightarrow> v | None \<Rightarrow> JUndefined)"
  by (simp add: lookup_prop_def split: option.splits)

lemma get_prop_obj [simp]: "get_prop (JObj kvs) f = Inr (lookup_prop (JObj kvs) f)"
  by (simp add: get_prop_def)

lemma get_prop_Inr: "get_prop x f = Inr v \<longleftrightarrow> \<not> nullish x \<and> v = lookup_prop x f"
  by (auto simp: get_prop_def)

lemma truthy_not_nullish: "truthy v \<Longrightarrow> \<not> nullish v"
  by (cases v) simp_all

text \<open>An index of an array or a string is written in digits, so no field name of the
  two services is one.\<close>

lemma show_nat_digits: "list_all (is_digit 10) (show_nat n)"
proof (induction n rule: show_nat.induct)
  case (1 n)
  have d: "is_digit 10 (digit_char k)" if "k < 10" for k
    using that by (simp add: is_digit_def digit_val_def digit_char_def)
  show ?case
  proof (cases "n < 10")
    case True
    then show ?thesis by (subst show_nat.simps) (simp add: d)
  next
    case False
    with 1 show ?thesis by (subst show_nat.simps) (simp add: d)
  qed
qed

lemma index_keys_digits:
  assumes "\<not> list_all (is_digit 10) k"
  shows "map_of (zip (map show_nat ns) xs) k = None"
proof -
  have "k \<notin> set (map show_nat ns)"
    using assms show_nat_digits by auto
  then have "k \<notin> fst ` set (zip (map show_nat ns) xs)"
    by (auto dest: set_zip_leftD)
  then show ?thesis
    by (simp add: map_of_eq_None_iff)
qed

lemma name_datum: "\<not> list_all (is_digit 10) ''datum''"
  by (simp add: is_digit_def digit_val_def)


lemma mapM_Inr: "mapM f xs = Inr ys \<Longrightarrow> list_all2 (\<lambda>x y. f x = Inr y) xs ys"
  by (induction xs arbitrary: ys) (auto split: sum.splits)


lemma mapM_succeeds:
  "(\<And>x. x \<in> set xs \<Longrightarrow> \<exists>y. f x = Inr y) \<Longrightarrow> \<exists>ys. mapM f xs = Inr ys"
proof (induction xs)
  case Nil
  then show ?case by simp
next
  case (Cons x xs)
  then obtain y ys where "f x = Inr y" "mapM f xs = Inr ys"
    by (metis list.set_intros(1) list.set_intros(2))
  then show ?case by simp
qed

section \<open>Digits and doubles\<close>

lemma digit_val_digit_char: "d < 10 \<Longrightarrow> digit_val (digit_char d) = Some d"
  by (simp add: digit_val_def digit_char_def)

lemma digits_value_snoc:
  "digits_value radix (s @ [c]) = digits_value radix s * radix + the (digit_val c)"
  by (simp add: digits_value_def)

lemma digits_value_show_nat: "digits_value 10 (show_nat n) = n"
proof (induction n rule: show_nat.induct)
  case (1 n)
  show ?case
  proof (cases "n < 10")
    case True
    then show ?thesis
      by (subst show_nat.simps) (simp add: digits_value_def digit_val_digit_char)
  next
    case False
    with 1 have "digits_value 10 (show_nat (n div 10)) = n div 10" by simp
    with False show ?thesis
      by (subst show_nat.simps) (simp add: digits_value_snoc digit_val_digit_char)
  qed
qed

lemma show_nat_nonempty: "show_nat n \<noteq> []"
  by (subst show_nat.simps) simp

lemma digit_not_space: "is_digit 10 c \<Longrightarrow> \<not> is_space c"
  by (auto simp: is_digit_def is_space_def digit_val_def Let_def split: if_splits)

lemma digit_not_sign: "is_digit 10 c \<Longrightarrow> c \<noteq> CHR ''-'' \<and> c \<noteq> CHR ''+'' \<and> c \<noteq> CHR ''x'' \<and> c \<noteq> CHR ''X''"
  by (auto simp: is_digit_def digit_val_def)

lemma takeWhile_all: "list_all P s \<Longrightarrow> takeWhile P s = s"
  by (induction s) auto

text \<open>An integer below \<open>2^53\<close> is a double.\<close>

lemma round_half_even_int: "round_half_even (of_int k) = k"
  by (simp add: round_half_even_def)

lemma to_double_small:
  assumes "0 < n" and "n < 2 ^ 53"
  shows "to_double (of_int n) = Num (of_int n)"
proof -
  define e where "e = bitlen n - 1"
  have b: "2 ^ nat (bitlen n - 1) \<le> n" "n < 2 ^ nat (bitlen n)"
    using bitlen_bounds [OF assms(1)] by auto
  have pos: "1 \<le> bitlen n"
    using assms(1) bitlen_eq_zero_iff [of n] bitlen_nonneg [of n] by linarith
  have "bitlen n \<le> 53"
    using assms by (simp add: bitlen_le_iff_power)
  with pos have e: "0 \<le> e" "e \<le> 52"
    by (simp_all add: e_def)
  have fl: "floor_log2 (of_int n) = e"
    using assms(1) by (simp add: floor_log2_def e_def)
  define k where "k = nat (52 - e)"
  have p: "pow2 (e - 52) = 1 / 2 ^ k"
    using e by (auto simp: pow2_def k_def)
  have q: "(of_int n :: rat) / pow2 (e - 52) = of_int (n * 2 ^ k)"
    by (simp add: p)
  have m: "round_half_even ((of_int n :: rat) / pow2 (e - 52)) = n * 2 ^ k"
    unfolding q by (rule round_half_even_int)
  have restored: "(2 ^ k :: rat) * pow2 (e - 52) = 1"
    by (simp add: p)
  have nz: "n * 2 ^ k \<noteq> 0"
    using assms(1) by simp
  have a: "\<bar>of_int n :: rat\<bar> = of_int n"
    using assms(1) by simp
  have mx: "max e (- 1022) = e"
    using e by simp
  show ?thesis
    using assms(1) e nz
    by (simp add: to_double_def a fl mx m restored Let_def)
qed

lemma parseInt_string_show_nat:
  assumes "n < 2 ^ 53"
  shows "parseInt_string (show_nat n) = Num (of_nat n)"
proof -
  obtain c cs where s: "show_nat n = c # cs"
    using show_nat_nonempty [of n] by (cases "show_nat n") auto
  have all: "list_all (is_digit 10) (c # cs)"
    using show_nat_digits [of n] s by simp
  then have c: "is_digit 10 c" by simp
  have sp: "dropWhile is_space (c # cs) = c # cs"
    using digit_not_space [OF c] by simp
  have sign: "\<not> starts_with ''-'' (c # cs)" "\<not> starts_with ''+'' (c # cs)"
    using digit_not_sign [OF c] by (simp_all add: starts_with_def)
  have hex: "\<not> starts_with ''0x'' (c # cs)" "\<not> starts_with ''0X'' (c # cs)"
  proof -
    have "cs \<noteq> [] \<Longrightarrow> is_digit 10 (hd cs)"
      using all by (cases cs) auto
    then show "\<not> starts_with ''0x'' (c # cs)" "\<not> starts_with ''0X'' (c # cs)"
      using digit_not_sign [of "hd cs"] by (cases cs; simp add: starts_with_def)+
  qed
  have tw: "takeWhile (is_digit 10) (c # cs) = c # cs"
    using all by (rule takeWhile_all)
  have v: "digits_value 10 (c # cs) = n"
    using digits_value_show_nat [of n] s by simp
  show ?thesis
  proof (cases "n = 0")
    case True
    then show ?thesis
      unfolding s parseInt_string_def sp
      using sign hex tw v by (simp add: Let_def)
  next
    case False
    have "to_double (of_int (int n)) = Num (of_int (int n))"
      using False assms by (intro to_double_small) (simp_all add: of_nat_less_numeral_power_cancel_iff)
    then have td: "to_double (of_nat n) = Num (of_nat n)" by simp
    show ?thesis
      unfolding s parseInt_string_def sp
      using sign hex tw v False td by (simp add: Let_def)
  qed
qed

lemma parseInt_JNum:
  assumes "0 \<le> n" and "n < 2 ^ 53"
  shows "parseInt (JNum n) = Num (of_int n)"
proof -
  have "nat n < 2 ^ 53"
    using assms by (simp add: nat_less_iff)
  then have "parseInt_string (show_nat (nat n)) = Num (of_nat (nat n))"
    by (rule parseInt_string_show_nat)
  then show ?thesis
    using assms(1) by (simp add: parseInt_def show_int_def)
qed

section \<open>The code on the example services\<close>

lemmas demo_defs =
  demo_world_def demo_kupmios_def new_Kupmios_def demo_answers_def
  demo_plain_def demo_hash_def demo_inline_def

lemmas normaliser_defs =
  kupmiosUtxoToUtxo_def assets_of_def Object_keys_def opt_prop_def fetch_script_def
  getDatum_def parseInt_JNum

lemma demo_normal_plain: "kupmiosUtxoToUtxo demo_world demo_kupmios demo_plain = Inr demo_utxo_plain"
  by (simp add: demo_defs normaliser_defs demo_utxo_plain_def)

lemma demo_normal_hash: "kupmiosUtxoToUtxo demo_world demo_kupmios demo_hash = Inr demo_utxo_hash"
  by (simp add: demo_defs normaliser_defs demo_utxo_hash_def)

lemma demo_normal_inline: "kupmiosUtxoToUtxo demo_world demo_kupmios demo_inline = Inr demo_utxo_inline"
  by (simp add: demo_defs normaliser_defs demo_utxo_inline_def)

lemma demo_matches_t1:
  "http_json demo_world (matches_url demo_kupmios ''t1'') = Inr (JArr [demo_plain, demo_hash])"
  by (simp add: demo_world_def demo_kupmios_def new_Kupmios_def demo_answers_def matches_url_def)

lemma demo_matches_t2:
  "http_json demo_world (matches_url demo_kupmios ''t2'') = Inr (JArr [demo_inline])"
  by (simp add: demo_world_def demo_kupmios_def new_Kupmios_def demo_answers_def matches_url_def)

lemma demo_tx1: "utxosOfTx demo_world demo_kupmios ''t1'' = Inr [demo_utxo_plain, demo_utxo_hash]"
  by (simp add: utxosOfTx_def demo_matches_t1 kupmiosUtxosToUtxos_def
                demo_normal_plain demo_normal_hash)

lemma demo_tx2: "utxosOfTx demo_world demo_kupmios ''t2'' = Inr [demo_utxo_inline]"
  by (simp add: utxosOfTx_def demo_matches_t2 kupmiosUtxosToUtxos_def demo_normal_inline)

lemma demo_hashes: "queryHashes demo_refs = [''t1'', ''t2'']"
  by (simp add: queryHashes_def array_of_Set_def demo_refs_def)

lemma demo_requested:
  "\<not> requested demo_refs demo_utxo_plain" "requested demo_refs demo_utxo_hash"
  "requested demo_refs demo_utxo_inline"
  by (simp_all add: requested_def demo_refs_def strict_eq_number_def
                    demo_utxo_plain_def demo_utxo_hash_def demo_utxo_inline_def)

lemma demo_by_refs:
  "getUtxosByOutRef demo_world demo_kupmios demo_refs = Inr [demo_utxo_hash, demo_utxo_inline]"
  by (simp add: getUtxosByOutRef_def demo_hashes demo_tx1 demo_tx2 demo_requested)



lemma demo_unit_none:
  "http_json demo_world (unit_url demo_world demo_kupmios ''p3'') = Inr (JArr [])"
  by (simp add: demo_world_def demo_kupmios_def new_Kupmios_def demo_answers_def unit_url_def)

lemma demo_datum_found:
  "http_json demo_world (kupoUrl demo_kupmios @ ''/datums/'' @ ''d1'')
     = Inr (JObj [(''datum'', JStr ''d87980'')])"
  by (simp add: demo_world_def demo_kupmios_def new_Kupmios_def demo_answers_def)

lemma demo_datum_missing:
  "http_json demo_world (kupoUrl demo_kupmios @ ''/datums/'' @ ''d0'') = Inr JNull"
  by (simp add: demo_world_def demo_kupmios_def new_Kupmios_def demo_answers_def)

lemma demo_script:
  "http_json demo_world
     (kupoUrl demo_kupmios @ ''/scripts/'' @ to_string (lookup_prop demo_inline ''script_hash''))
     = Inr (JObj [(''script'', JStr ''4e4d01''), (''language'', JStr ''plutus:v3'')])"
  by (simp add: demo_defs)

lemma double_0_0577: "to_double (577 / 10000) = Num (2078861587994221 / 2 ^ 55)"
  by code_simp

lemma digits_577: "''577'' = show_nat 577" "''10000'' = show_nat 10000"
  "''10'' = show_nat 10" "''1'' = show_nat 1" "''2'' = show_nat 2"
  by (simp_all add: show_nat.simps digit_char_def char_of_def bit_Suc_0_iff)

lemma parseInt_digits:
  "parseInt (JStr ''577'') = Num 577" "parseInt (JStr ''10000'') = Num 10000"
  "parseInt (JStr ''10'') = Num 10" "parseInt (JStr ''1'') = Num 1"
  "parseInt (JStr ''2'') = Num 2"
  unfolding parseInt_def to_string.simps digits_577
  by (simp_all add: parseInt_string_show_nat)

lemma ratio_10_1: "ratio_of (split_on CHR ''/'' ''10/1'') = Num 10"
  by (simp add: ratio_of_def part_def parseInt_digits divide_number_def to_double_small [of 10, simplified])

lemma ratio_2_1: "ratio_of (split_on CHR ''/'' ''2/1'') = Num 2"
  by (simp add: ratio_of_def part_def parseInt_digits divide_number_def to_double_small [of 2, simplified])

lemma ratio_577_10000: "ratio_of (split_on CHR ''/'' ''577/10000'') = to_double (577 / 10000)"
  by (simp add: ratio_of_def part_def parseInt_digits divide_number_def double_0_0577)

lemma demo_costModels:
  "add_costModels (lookup_prop demo_parameters ''result'') [''plutus:v1'', ''plutus:v2''] []
     = Inr [(''PlutusV1'', JArr [JNum 100788, JNum 420]), (''PlutusV2'', JArr [JNum 100788])]"
  by (simp add: demo_parameters_def part_def toUpperCase_def char_of_def bit_Suc_0_iff)

lemma demo_protocol: "getProtocolParameters demo_parameters = Inr demo_parameters_result"
  unfolding getProtocolParameters_def
  apply (simp add: demo_parameters_def [THEN arg_cong, of "\<lambda>x. get_prop x ''result''"])
  apply (simp add: demo_costModels [unfolded demo_parameters_def, simplified] Object_keys_def)
  apply (simp add: split_value_def ratio_2_1 [simplified] ratio_577_10000 [simplified] double_0_0577
      parseInt_JNum demo_parameters_result_def)
  done

section \<open>The session (C3)\<close>







subsection \<open>Header values\<close>



lemma header_names:
  "is_header_name ''Cookie''" "is_header_name ''CF-Access-Client-Id''"
  "is_header_name ''CF-Access-Client-Secret''"
  by (simp_all add: is_header_name_def is_token_char_def)

lemma lower_names:
  "toLowerCase ''Cookie'' = ''cookie''"
  "toLowerCase ''CF-Access-Client-Id'' = ''cf-access-client-id''"
  "toLowerCase ''CF-Access-Client-Secret'' = ''cf-access-client-secret''"
  by (simp_all add: toLowerCase_def char_of_def bit_Suc_0_iff)

lemma getAuthHeaders_fresh:
  assumes "cfAuthorizationCookie this = None"
    and "is_header_value (normalize_value (clientId this))"
    and "is_header_value (normalize_value (clientSecret this))"
  shows "getAuthHeaders this = Inr (client_headers this)"
  using assms
  by (simp add: getAuthHeaders_def Headers_set_def header_names lower_names andThen_def
                client_headers_def)


subsection \<open>Runs\<close>

























lemma demo_credentials:
  "cfAuthorizationCookie demo_kupmios = None"
  "is_header_value (normalize_value (clientId demo_kupmios))"
  "is_header_value (normalize_value (clientSecret demo_kupmios))"
  "client_headers demo_kupmios
     = [(''cf-access-client-id'', ''id''), (''cf-access-client-secret'', ''secret'')]"
  by (simp_all add: demo_kupmios_def new_Kupmios_def client_headers_def normalize_value_def
                    is_http_whitespace_def is_header_value_def)



section \<open>Datum lookup (C6)\<close>

text \<open>
  C6. Given the indexer's answer to the datum request, \<^verbatim>\<open>getDatum\<close> fails exactly when
  the answer carries no datum body, and then with the Error whose message names the
  hash; otherwise it returns the datum body of the answer. No shape of the answer makes
  it fail in another way.
\<close>

theorem getDatum_fails_iff_no_datum:
  assumes "http_json w (kupoUrl this @ ''/datums/'' @ h) = Inr answer"
  shows "getDatum w this (JStr h) =
           (case datum_body answer of
              None \<Rightarrow> Inl (Error (''No datum found for datum hash: '' @ h))
            | Some d \<Rightarrow> Inr d)"
  using assms
  by (cases answer)
     (auto simp: getDatum_def get_prop_def lookup_prop_def datum_body_def
                 index_keys_digits [OF name_datum]
           split: option.splits)

theorem getDatum_fails_iff_no_datum_witness:
  "http_json demo_world (kupoUrl demo_kupmios @ ''/datums/'' @ ''d1'')
     = Inr (JObj [(''datum'', JStr ''d87980'')])
   \<and> getDatum demo_world demo_kupmios (JStr ''d1'') = Inr (JStr ''d87980'')
   \<and> http_json demo_world (kupoUrl demo_kupmios @ ''/datums/'' @ ''d0'') = Inr JNull
   \<and> getDatum demo_world demo_kupmios (JStr ''d0'')
       = Inl (Error ''No datum found for datum hash: d0'')"
  using getDatum_fails_iff_no_datum [OF demo_datum_found]
    getDatum_fails_iff_no_datum [OF demo_datum_missing]
    demo_datum_found demo_datum_missing
  by (simp add: datum_body_def)

section \<open>Submission (C7)\<close>

text \<open>
  C7. When the message of the node bridge has a \<^verbatim>\<open>result\<close> with a \<^verbatim>\<open>transaction\<close>
  in it, \<^verbatim>\<open>submitTx\<close> resolves with the \<^verbatim>\<open>id\<close> of that transaction. When the
  message has no \<^verbatim>\<open>result\<close> but an \<^verbatim>\<open>error\<close>, it rejects with that error value,
  unchanged.
\<close>

theorem submitTx_settles:
  "(map_of members ''result'' = Some result \<and> \<not> nullish result
      \<and> lookup_prop result ''transaction'' = t \<and> truthy t
      \<longrightarrow> submitTx (JObj members) = Inr (lookup_prop t ''id''))
   \<and> (map_of members ''result'' = None \<and> map_of members ''error'' = Some e
      \<longrightarrow> submitTx (JObj members) = Inl (Rejected e))"
  by (auto simp: submitTx_def opt_prop_def get_prop_def truthy_not_nullish)

theorem submitTx_settles_witness:
  "map_of demo_submitted ''result'' = Some (JObj [(''transaction'', JObj [(''id'', JStr ''4f539156'')])])
   \<and> submitTx (JObj demo_submitted) = Inr (JStr ''4f539156'')
   \<and> map_of demo_refused ''result'' = None
   \<and> submitTx (JObj demo_refused)
       = Inl (Rejected (JObj [(''code'', JNum 3005), (''message'', JStr ''Unknown era'')]))"
  using submitTx_settles [where members = demo_submitted
      and result = "JObj [(''transaction'', JObj [(''id'', JStr ''4f539156'')])]"
      and t = "JObj [(''id'', JStr ''4f539156'')]"]
    submitTx_settles [where members = demo_refused
      and e = "JObj [(''code'', JNum 3005), (''message'', JStr ''Unknown era'')]"]
  by (simp add: demo_submitted_def demo_refused_def)

section \<open>Delegation (C5)\<close>

text \<open>
  Where the bridge answers with a \<^verbatim>\<open>result\<close> that has no entry, the listener resolves
  with the pool id \<^verbatim>\<open>null\<close> and rewards 0; where the result has one entry with both
  members, the record is read from that entry.
\<close>

lemma getDelegation_entry_or_default:
  "(map_of members ''result'' = Some result \<and> truthy result \<and> own_entries result = []
      \<longrightarrow> getDelegation_listener (JObj members) = Inr \<lparr>poolId = JNull, rewards = 0\<rparr>)
   \<and> (map_of members ''result'' = Some (JObj [(key, entry)])
      \<and> path entry [''delegate'', ''id''] = Inr pool
      \<and> path entry [''rewards'', ''ada'', ''lovelace''] = Inr (JNum n)
      \<longrightarrow> getDelegation_listener (JObj members)
            = Inr \<lparr>poolId = orElse pool JNull, rewards = n\<rparr>)"
proof (intro conjI impI)
  assume "map_of members ''result'' = Some result \<and> truthy result \<and> own_entries result = []"
  then show "getDelegation_listener (JObj members) = Inr \<lparr>poolId = JNull, rewards = 0\<rparr>"
    by (simp add: getDelegation_listener_def Object_values_def truthy_not_nullish first_of_def
                  orElse_def)
next
  assume a: "map_of members ''result'' = Some (JObj [(key, entry)])
      \<and> path entry [''delegate'', ''id''] = Inr pool
      \<and> path entry [''rewards'', ''ada'', ''lovelace''] = Inr (JNum n)"
  then have "\<not> nullish entry"
    by (auto simp: get_prop_def split: if_splits)
  with a show "getDelegation_listener (JObj members)
                 = Inr \<lparr>poolId = orElse pool JNull, rewards = n\<rparr>"
    by (simp add: getDelegation_listener_def Object_values_def first_of_def orElse_def)
qed

text \<open>A message without a \<^verbatim>\<open>result\<close>, or with a \<^verbatim>\<open>result\<close> that is empty
  (\<^verbatim>\<open>null\<close>, \<^verbatim>\<open>false\<close>, \<^verbatim>\<open>0\<close> or \<^verbatim>\<open>""\<close>), makes the listener read \<^verbatim>\<open>.id\<close> of the
  \<^verbatim>\<open>delegate\<close> of \<^verbatim>\<open>{}\<close>: the call rejects with a TypeError.\<close>

lemma getDelegation_listener_no_result:
  "\<not> truthy (lookup_prop (JObj members) ''result'')
     \<Longrightarrow> getDelegation_listener (JObj members) = Inl TypeError"
  by (simp add: getDelegation_listener_def get_prop_def)

text \<open>So does an entry that has no \<^verbatim>\<open>delegate\<close> member.\<close>

lemma getDelegation_listener_no_delegate:
  "map_of members ''result'' = Some (JObj [(key, JObj entry)]) \<Longrightarrow> map_of entry ''delegate'' = None
     \<Longrightarrow> getDelegation_listener (JObj members) = Inl TypeError"
  by (simp add: getDelegation_listener_def Object_values_def first_of_def get_prop_def)

lemma demo_headers:
  "getAuthHeaders demo_kupmios
     = Inr [(''cf-access-client-id'', ''id''), (''cf-access-client-secret'', ''secret'')]"
  using getAuthHeaders_fresh [OF demo_credentials(1-3)] by (simp add: demo_credentials(4))

text \<open>
  C5 does not hold of the code. The example bridge has a summary for
  \<^verbatim>\<open>stake1u9\<close>, an empty result for \<^verbatim>\<open>stake1new\<close>, a summary without \<^verbatim>\<open>delegate\<close> for
  \<^verbatim>\<open>stake1idle\<close>, and refuses the query for any other address with a message that has
  an \<^verbatim>\<open>error\<close> and no \<^verbatim>\<open>result\<close>. \<^verbatim>\<open>getDelegation\<close> resolves for the first two. For
  \<^verbatim>\<open>stake1zz\<close>, for which the reply holds no entry, it does not resolve with a
  \<^verbatim>\<open>null\<close> pool id and zero rewards: it rejects with a TypeError. For \<^verbatim>\<open>stake1idle\<close> it
  does not extract the entry: it rejects with a TypeError.
\<close>

theorem getDelegation_rejects_without_result:
  "getDelegation demo_ogmios demo_kupmios ''stake1u9''
     = Inr \<lparr>poolId = JStr ''pool1q'', rewards = 42\<rparr>
   \<and> getDelegation demo_ogmios demo_kupmios ''stake1new'' = Inr \<lparr>poolId = JNull, rewards = 0\<rparr>
   \<and> demo_ogmios [(''cf-access-client-id'', ''id''), (''cf-access-client-secret'', ''secret'')]
        (JObj [(''jsonrpc'', JStr ''2.0''),
               (''method'', JStr ''queryLedgerState/rewardAccountSummaries''),
               (''params'', JObj [(''keys'', JArr [JStr ''stake1zz''])])])
       = JObj [(''jsonrpc'', JStr ''2.0''),
               (''method'', JStr ''queryLedgerState/rewardAccountSummaries''),
               (''error'', JObj [(''code'', JNum 2001), (''message'', JStr ''era mismatch'')])]
   \<and> getDelegation demo_ogmios demo_kupmios ''stake1zz'' = Inl TypeError
   \<and> getDelegation demo_ogmios demo_kupmios ''stake1idle'' = Inl TypeError"
proof -
  have listener:
    "getDelegation_listener (JObj demo_delegated) = Inr \<lparr>poolId = JStr ''pool1q'', rewards = 42\<rparr>"
    "getDelegation_listener (JObj demo_undelegated) = Inr \<lparr>poolId = JNull, rewards = 0\<rparr>"
    "getDelegation_listener (JObj demo_failed) = Inl TypeError"
    "getDelegation_listener (JObj demo_idle) = Inl TypeError"
    by (simp_all add: getDelegation_listener_def demo_delegated_def demo_undelegated_def
                      demo_failed_def demo_idle_def Object_values_def first_of_def get_prop_def
                      orElse_def)
  show ?thesis
    by (simp add: getDelegation_def rpc_def demo_headers demo_ogmios_def listener)
       (simp add: demo_failed_def)
qed

section \<open>The holder of a unit (C2, C9)\<close>

text \<open>
  C9. When the indexer lists no match for the unit, \<^verbatim>\<open>getUtxoByUnit\<close> does not fail:
  it resolves with \<^verbatim>\<open>undefined\<close>.
\<close>

theorem getUtxoByUnit_no_match:
  assumes "http_json w (unit_url w this unit) = Inr (JArr [])"
  shows "getUtxoByUnit w this unit = Inr None"
  using assms by (simp add: getUtxoByUnit_def kupmiosUtxosToUtxos_def)

theorem getUtxoByUnit_no_match_witness:
  "http_json demo_world (unit_url demo_world demo_kupmios ''p3'') = Inr (JArr [])
   \<and> getUtxoByUnit demo_world demo_kupmios ''p3'' = Inr None"
  using getUtxoByUnit_no_match [OF demo_unit_none] demo_unit_none by simp




section \<open>The normaliser (C4, C10)\<close>

lemma getDatum_truthy: "getDatum w this h = Inr d \<Longrightarrow> truthy d"
  by (auto simp: getDatum_def andThen_eq_Inr get_prop_Inr split: if_splits)

text \<open>
  C4, as amended. In every output the normaliser produces, the datum hash and the datum
  body are never both set. A match of datum type \<^verbatim>\<open>inline\<close> gives the datum body that
  \<^verbatim>\<open>getDatum\<close> fetched for its hash, which is not empty, and a \<^verbatim>\<open>null\<close> datum hash. A
  match of datum type \<^verbatim>\<open>hash\<close> gives a \<^verbatim>\<open>null\<close> datum body and, as the datum hash, the
  \<^verbatim>\<open>datum_hash\<close> member of the match as it is: the datum hash is populated exactly when
  that member is. A match of neither type gives \<^verbatim>\<open>null\<close> for both.
\<close>

theorem datum_forms_exclusive:
  assumes "kupmiosUtxoToUtxo w this r = Inr u"
  shows "(lookup_prop r ''datum_type'' = JStr ''inline'' \<longrightarrow>
            getDatum w this (lookup_prop r ''datum_hash'') = Inr (datum u)
          \<and> truthy (datum u) \<and> populated (datum u) \<and> datumHash u = JNull)
       \<and> (lookup_prop r ''datum_type'' = JStr ''hash'' \<longrightarrow>
            datumHash u = lookup_prop r ''datum_hash'' \<and> datum u = JNull
          \<and> (populated (datumHash u) \<longleftrightarrow> populated (lookup_prop r ''datum_hash'')))
       \<and> (lookup_prop r ''datum_type'' \<noteq> JStr ''inline''
          \<and> lookup_prop r ''datum_type'' \<noteq> JStr ''hash'' \<longrightarrow>
            datumHash u = JNull \<and> datum u = JNull)
       \<and> \<not> (datumHash u \<noteq> JNull \<and> datum u \<noteq> JNull)
       \<and> \<not> (populated (datumHash u) \<and> populated (datum u))"
proof -
  from assms have nn: "\<not> nullish r"
    by (auto simp: kupmiosUtxoToUtxo_def andThen_eq_Inr get_prop_Inr)
  from assms obtain dh d where
    dh: "(if lookup_prop r ''datum_type'' = JStr ''hash'' then get_prop r ''datum_hash''
          else Inr JNull) = Inr dh"
    and d: "(if lookup_prop r ''datum_type'' = JStr ''inline'' then
               andThen (get_prop r ''datum_hash'') (getDatum w this)
             else Inr JNull) = Inr d"
    and u: "datumHash u = dh" "datum u = d"
    using nn by (auto simp: kupmiosUtxoToUtxo_def andThen_eq_Inr opt_prop_def)
  have pop: "\<And>v. truthy v \<Longrightarrow> populated v"
    by (auto simp: populated_def truthy_not_nullish)
  have null: "\<not> populated JNull"
    by (simp add: populated_def)
  show ?thesis
    using dh d u nn pop null
    by (auto simp: get_prop_def andThen_eq_Inr getDatum_truthy split: if_splits)
qed

theorem datum_forms_exclusive_witness:
  "kupmiosUtxoToUtxo demo_world demo_kupmios demo_inline = Inr demo_utxo_inline
   \<and> lookup_prop demo_inline ''datum_type'' = JStr ''inline''
   \<and> datum demo_utxo_inline = JStr ''d87980'' \<and> datumHash demo_utxo_inline = JNull
   \<and> kupmiosUtxoToUtxo demo_world demo_kupmios demo_hash = Inr demo_utxo_hash
   \<and> lookup_prop demo_hash ''datum_type'' = JStr ''hash''
   \<and> populated (lookup_prop demo_hash ''datum_hash'')
   \<and> datumHash demo_utxo_hash = JStr ''d0'' \<and> datum demo_utxo_hash = JNull
   \<and> populated (datumHash demo_utxo_hash)
   \<and> kupmiosUtxoToUtxo demo_world demo_kupmios demo_plain = Inr demo_utxo_plain
   \<and> lookup_prop demo_plain ''datum_type'' = JUndefined
   \<and> datumHash demo_utxo_plain = JNull \<and> datum demo_utxo_plain = JNull"
proof -
  have types: "lookup_prop demo_inline ''datum_type'' = JStr ''inline''"
    "lookup_prop demo_hash ''datum_type'' = JStr ''hash''"
    "lookup_prop demo_plain ''datum_type'' = JUndefined"
    "lookup_prop demo_hash ''datum_hash'' = JStr ''d0''"
    "lookup_prop demo_inline ''datum_hash'' = JStr ''d1''"
    by (simp_all add: demo_inline_def demo_hash_def demo_plain_def)
  have fetched: "getDatum demo_world demo_kupmios (JStr ''d1'') = Inr (JStr ''d87980'')"
    by (simp add: getDatum_def demo_world_def demo_kupmios_def new_Kupmios_def demo_answers_def)
  have pop: "populated (JStr ''d0'')"
    by (simp add: populated_def)
  show ?thesis
    using datum_forms_exclusive [OF demo_normal_inline] datum_forms_exclusive [OF demo_normal_hash]
      datum_forms_exclusive [OF demo_normal_plain] types fetched pop
      demo_normal_inline demo_normal_hash demo_normal_plain
    by simp
qed

text \<open>
  As the specification states it, C4 fails on a match of datum type \<^verbatim>\<open>hash\<close> whose
  \<^verbatim>\<open>datum_hash\<close> is \<^verbatim>\<open>null\<close>: the datum hash of the output is \<^verbatim>\<open>null\<close>, not populated.
\<close>

theorem datum_forms_exclusive_counterexample:
  "lookup_prop demo_unhashed ''datum_type'' = JStr ''hash''
   \<and> kupmiosUtxoToUtxo demo_world demo_kupmios demo_unhashed = Inr demo_utxo_unhashed
   \<and> datumHash demo_utxo_unhashed = JNull
   \<and> \<not> populated (datumHash demo_utxo_unhashed)"
proof -
  have "kupmiosUtxoToUtxo demo_world demo_kupmios demo_unhashed = Inr demo_utxo_unhashed"
    by (simp add: normaliser_defs demo_defs demo_unhashed_def demo_utxo_unhashed_def
                  parseInt_JNum)
  then show ?thesis
    by (simp add: demo_unhashed_def demo_utxo_unhashed_def populated_def)
qed

text \<open>
  C10. Take a match with a script hash whose script the indexer describes in a language
  other than \<^verbatim>\<open>native\<close>, \<^verbatim>\<open>plutus:v1\<close> and \<^verbatim>\<open>plutus:v2\<close>. Where the fields before the
  script evaluate (the match is an object, its assets convert, its inline datum, if
  any, is found), the normaliser does not fail: it produces the output with those
  fields and \<^verbatim>\<open>undefined\<close> for the script reference.
\<close>

theorem unknown_script_language_omitted:
  assumes "truthy (lookup_prop r ''script_hash'')"
    and "http_json w (kupoUrl this @ ''/scripts/'' @ to_string (lookup_prop r ''script_hash''))
           = Inr answer"
    and "\<not> nullish answer"
    and "lookup_prop answer ''language''
           \<notin> {JStr ''native'', JStr ''plutus:v1'', JStr ''plutus:v2''}"
    and "\<not> nullish r"
    and "assets_of r = Inr a"
    and "(if lookup_prop r ''datum_type'' = JStr ''inline''
          then getDatum w this (lookup_prop r ''datum_hash'') else Inr JNull) = Inr d"
  shows "kupmiosUtxoToUtxo w this r =
           Inr \<lparr>txHash = lookup_prop r ''transaction_id'',
                outputIndex = parseInt (lookup_prop r ''output_index''),
                address = lookup_prop r ''address'',
                assets = a,
                datumHash = (if lookup_prop r ''datum_type'' = JStr ''hash''
                             then lookup_prop r ''datum_hash'' else JNull),
                datum = d,
                scriptRef = JUndefined\<rparr>"
proof -
  have s: "fetch_script w this r = Inr JUndefined"
    using assms(1-5) by (simp add: fetch_script_def get_prop_def)
  show ?thesis
    using assms s
    by (auto simp: kupmiosUtxoToUtxo_def get_prop_def opt_prop_def split: if_splits)
qed

theorem unknown_script_language_omitted_witness:
  "truthy (lookup_prop demo_inline ''script_hash'')
   \<and> http_json demo_world
       (kupoUrl demo_kupmios @ ''/scripts/'' @ to_string (lookup_prop demo_inline ''script_hash''))
       = Inr (JObj [(''script'', JStr ''4e4d01''), (''language'', JStr ''plutus:v3'')])
   \<and> assets_of demo_inline = Inr [(''lovelace'', 3000000)]
   \<and> kupmiosUtxoToUtxo demo_world demo_kupmios demo_inline =
       Inr \<lparr>txHash = JStr ''t2'', outputIndex = Num 0, address = JStr ''addr3'',
            assets = [(''lovelace'', 3000000)], datumHash = JNull, datum = JStr ''d87980'',
            scriptRef = JUndefined\<rparr>"
proof -
  have h: "truthy (lookup_prop demo_inline ''script_hash'')"
    by (simp add: demo_inline_def)
  have l: "lookup_prop (JObj [(''script'', JStr ''4e4d01''), (''language'', JStr ''plutus:v3'')])
             ''language'' \<notin> {JStr ''native'', JStr ''plutus:v1'', JStr ''plutus:v2''}"
    by simp
  have n: "\<not> nullish (JObj [(''script'', JStr ''4e4d01''), (''language'', JStr ''plutus:v3'')])"
    "\<not> nullish demo_inline"
    by (simp_all add: demo_inline_def)
  have a: "assets_of demo_inline = Inr [(''lovelace'', 3000000)]"
    by (simp add: assets_of_def demo_inline_def Object_keys_def)
  have d: "(if lookup_prop demo_inline ''datum_type'' = JStr ''inline''
            then getDatum demo_world demo_kupmios (lookup_prop demo_inline ''datum_hash'')
            else Inr JNull) = Inr (JStr ''d87980'')"
    by (simp add: getDatum_def demo_defs)
  have f: "lookup_prop demo_inline ''transaction_id'' = JStr ''t2''"
    "parseInt (lookup_prop demo_inline ''output_index'') = Num 0"
    "lookup_prop demo_inline ''address'' = JStr ''addr3''"
    "lookup_prop demo_inline ''datum_type'' \<noteq> JStr ''hash''"
    by (simp_all add: demo_inline_def parseInt_JNum)
  show ?thesis
    using unknown_script_language_omitted [OF h demo_script n(1) l n(2) a d] h demo_script a
    by (simp add: f)
qed

section \<open>Outputs by reference (C1)\<close>

lemma insert_step_set:
  "set (foldl (\<lambda>acc x. if x \<in> set acc then acc else acc @ [x]) acc xs) = set acc \<union> set xs"
  by (induction xs arbitrary: acc) auto

lemma insert_step_distinct:
  "distinct acc \<Longrightarrow>
     distinct (foldl (\<lambda>acc x. if x \<in> set acc then acc else acc @ [x]) acc xs)"
  by (induction xs arbitrary: acc) auto

lemma array_of_Set_set: "set (array_of_Set xs) = set xs"
  by (simp add: array_of_Set_def insert_step_set)

lemma array_of_Set_distinct: "distinct (array_of_Set xs)"
  by (simp add: array_of_Set_def insert_step_distinct)

lemma concat_answers_set:
  "list_all2 (\<lambda>x ys. f x = Inr ys) xs yss \<Longrightarrow>
     set (concat yss) = {u. \<exists>x \<in> set xs. \<exists>ys. f x = Inr ys \<and> u \<in> set ys}"
  by (induction rule: list_all2_induct) auto

text \<open>Answers to different questions, each without a repeated key and each about its
  own question, have no key twice when put together.\<close>

lemma concat_answers_distinct:
  assumes "list_all2 (\<lambda>x ys. f x = Inr ys) xs yss"
    and "distinct xs"
    and "\<And>x ys. x \<in> set xs \<Longrightarrow> f x = Inr ys \<Longrightarrow>
            distinct (map k ys) \<and> (\<forall>u \<in> set ys. fst (k u) = g x)"
    and "inj g"
  shows "distinct (map k (concat yss))"
  using assms
proof (induction rule: list_all2_induct)
  case Nil
  then show ?case by simp
next
  case (Cons x xs ys yss)
  have d: "distinct (map k ys)" and own: "\<forall>u \<in> set ys. fst (k u) = g x"
    using Cons.prems(2) [of x ys] Cons.hyps(1) by auto
  have rest: "distinct (map k (concat yss))"
    using Cons by auto
  have other: "fst (k v) \<noteq> g x" if "v \<in> set (concat yss)" for v
  proof -
    have "v \<in> {u. \<exists>x \<in> set xs. \<exists>ys. f x = Inr ys \<and> u \<in> set ys}"
      using that concat_answers_set [OF Cons.hyps(2)] by blast
    then obtain x' ys' where x': "x' \<in> set xs" "f x' = Inr ys'" "v \<in> set ys'"
      by blast
    then have "fst (k v) = g x'"
      using Cons.prems(2) [of x' ys'] by auto
    moreover have "x' \<noteq> x"
      using x'(1) Cons.prems(1) by auto
    ultimately show ?thesis
      using \<open>inj g\<close> by (auto dest: injD)
  qed
  have "k ` set ys \<inter> k ` set (concat yss) = {}"
    using own other by force
  with d rest show ?case by simp
qed

text \<open>
  C1. For every array of output references:
  \<^item> the hashes queried are the hashes of the array, each once;
  \<^item> when the call resolves, the outputs returned are exactly the outputs, among those
    the indexer lists for the transactions of the array, whose (hash, index) pair is
    in the array: none is missing and none is extra;
  \<^item> when the indexer answers each query with outputs of the transaction asked for,
    one per index, the call resolves and no (hash, index) pair is returned twice,
    however many references share a hash.
\<close>

theorem getUtxosByOutRef_exact:
  "distinct (queryHashes outRefs)
   \<and> set (queryHashes outRefs) = txHash ` set outRefs
   \<and> (getUtxosByOutRef w this outRefs = Inr us \<longrightarrow>
        set us = {u. requested outRefs u
                    \<and> (\<exists>h \<in> txHash ` set outRefs. \<exists>ns. utxosOfTx w this h = Inr ns \<and> u \<in> set ns)})
   \<and> ((\<forall>h \<in> txHash ` set outRefs. \<exists>ns. utxosOfTx w this h = Inr ns
          \<and> distinct (map outputIndex ns) \<and> (\<forall>u \<in> set ns. txHash u = JStr h)) \<longrightarrow>
        (\<exists>vs. getUtxosByOutRef w this outRefs = Inr vs \<and> distinct (map outRef_of vs)))"
proof (intro conjI impI)
  show "distinct (queryHashes outRefs)"
    by (simp add: queryHashes_def array_of_Set_distinct)
  show qs: "set (queryHashes outRefs) = txHash ` set outRefs"
    by (simp add: queryHashes_def array_of_Set_set)
  {
    assume "getUtxosByOutRef w this outRefs = Inr us"
    then obtain yss where yss: "mapM (utxosOfTx w this) (queryHashes outRefs) = Inr yss"
      and us: "us = filter (requested outRefs) (concat yss)"
      by (auto simp: getUtxosByOutRef_def andThen_eq_Inr)
    from yss have "list_all2 (\<lambda>h ns. utxosOfTx w this h = Inr ns) (queryHashes outRefs) yss"
      by (rule mapM_Inr)
    then have "set (concat yss) =
        {u. \<exists>h \<in> set (queryHashes outRefs). \<exists>ns. utxosOfTx w this h = Inr ns \<and> u \<in> set ns}"
      by (rule concat_answers_set)
    with us qs show "set us = {u. requested outRefs u
        \<and> (\<exists>h \<in> txHash ` set outRefs. \<exists>ns. utxosOfTx w this h = Inr ns \<and> u \<in> set ns)}"
      by auto
  }
  {
    assume contract: "\<forall>h \<in> txHash ` set outRefs. \<exists>ns. utxosOfTx w this h = Inr ns
          \<and> distinct (map outputIndex ns) \<and> (\<forall>u \<in> set ns. txHash u = JStr h)"
    then have "\<exists>yss. mapM (utxosOfTx w this) (queryHashes outRefs) = Inr yss"
      using qs by (intro mapM_succeeds) auto
    then obtain yss where yss: "mapM (utxosOfTx w this) (queryHashes outRefs) = Inr yss" ..
    then have l: "list_all2 (\<lambda>h ns. utxosOfTx w this h = Inr ns) (queryHashes outRefs) yss"
      by (rule mapM_Inr)
    have each: "distinct (map outRef_of ns) \<and> (\<forall>u \<in> set ns. fst (outRef_of u) = JStr h)"
      if "h \<in> set (queryHashes outRefs)" "utxosOfTx w this h = Inr ns" for h ns
    proof -
      from that contract qs have d: "distinct (map outputIndex ns)"
        and t: "\<forall>u \<in> set ns. txHash u = JStr h"
        by auto
      from d have "distinct (map (snd \<circ> outRef_of) ns)"
        by (simp add: outRef_of_def comp_def)
      then have "distinct (map outRef_of ns)"
        by (metis distinct_map map_map)
      with t show ?thesis by (simp add: outRef_of_def)
    qed
    have "distinct (map outRef_of (concat yss))"
      using l _ each
    proof (rule concat_answers_distinct)
      show "distinct (queryHashes outRefs)"
        by (simp add: queryHashes_def array_of_Set_distinct)
      show "inj JStr" by (simp add: inj_def)
    qed
    then have "distinct (map outRef_of (filter (requested outRefs) (concat yss)))"
      by (rule distinct_map_filter)
    with yss show "\<exists>vs. getUtxosByOutRef w this outRefs = Inr vs \<and> distinct (map outRef_of vs)"
      by (simp add: getUtxosByOutRef_def)
  }
qed

theorem getUtxosByOutRef_exact_witness:
  "queryHashes demo_refs = [''t1'', ''t2'']
   \<and> getUtxosByOutRef demo_world demo_kupmios demo_refs = Inr [demo_utxo_hash, demo_utxo_inline]
   \<and> set [demo_utxo_hash, demo_utxo_inline]
       = {u. requested demo_refs u
             \<and> (\<exists>h \<in> txHash ` set demo_refs. \<exists>ns.
                   utxosOfTx demo_world demo_kupmios h = Inr ns \<and> u \<in> set ns)}
   \<and> distinct (map outRef_of [demo_utxo_hash, demo_utxo_inline])"
proof -
  have hashes: "txHash ` set demo_refs = {''t1'', ''t2''}"
    by (auto simp: demo_refs_def)
  have contract: "\<forall>h \<in> txHash ` set demo_refs. \<exists>ns. utxosOfTx demo_world demo_kupmios h = Inr ns
          \<and> distinct (map outputIndex ns) \<and> (\<forall>u \<in> set ns. txHash u = JStr h)"
    unfolding hashes
    by (simp add: demo_tx1 demo_tx2 demo_utxo_plain_def demo_utxo_hash_def demo_utxo_inline_def)
  note inst = getUtxosByOutRef_exact [of demo_refs demo_world demo_kupmios
      "[demo_utxo_hash, demo_utxo_inline]"]
  have exact: "set [demo_utxo_hash, demo_utxo_inline]
       = {u. requested demo_refs u
             \<and> (\<exists>h \<in> txHash ` set demo_refs. \<exists>ns.
                   utxosOfTx demo_world demo_kupmios h = Inr ns \<and> u \<in> set ns)}"
    using inst demo_by_refs by blast
  have "\<exists>vs. getUtxosByOutRef demo_world demo_kupmios demo_refs = Inr vs
            \<and> distinct (map outRef_of vs)"
    using inst contract by blast
  then have once: "distinct (map outRef_of [demo_utxo_hash, demo_utxo_inline])"
    by (simp add: demo_by_refs)
  show ?thesis
    using demo_hashes demo_by_refs exact once by blast
qed

section \<open>Execution prices (C8)\<close>

lemma split_on_no_sep: "sep \<notin> set s \<Longrightarrow> split_on sep s = [s]"
  by (induction s) auto

lemma split_on_append:
  "sep \<notin> set s1 \<Longrightarrow> split_on sep (s1 @ sep # s2) = s1 # split_on sep s2"
  by (induction s1) auto

lemma show_nat_no_slash: "CHR ''/'' \<notin> set (show_nat n)"
proof
  assume "CHR ''/'' \<in> set (show_nat n)"
  then have "is_digit 10 CHR ''/''"
    using show_nat_digits [of n] by (simp add: list_all_iff)
  then show False
    by (simp add: is_digit_def digit_val_def)
qed

lemma split_fraction:
  "split_on CHR ''/'' (show_nat a @ CHR ''/'' # show_nat b) = [show_nat a, show_nat b]"
  using split_on_append [OF show_nat_no_slash, of a "show_nat b"]
    split_on_no_sep [OF show_nat_no_slash, of b]
  by simp

lemma parseInt_show_nat: "n < 2 ^ 53 \<Longrightarrow> parseInt (JStr (show_nat n)) = Num (of_nat n)"
  by (simp add: parseInt_def parseInt_string_show_nat)

lemma divide_number_positive:
  assumes "0 \<le> a" and "0 < b"
  shows "divide_number (Num a) (Num b) = to_double (a / b)"
  using assms by (simp add: divide_number_def to_double_def)

text \<open>The price of a fraction written in digits is the double nearest to the fraction.\<close>

lemma ratio_of_fraction:
  assumes "a < 2 ^ 53" and "0 < b" and "b < 2 ^ 53"
  shows "ratio_of (split_on CHR ''/'' (show_nat a @ ''/'' @ show_nat b))
           = to_double (of_nat a / of_nat b)"
  using assms
  by (simp add: split_fraction ratio_of_def part_def parseInt_show_nat divide_number_positive)

lemma price_of_message:
  assumes "getProtocolParameters msg = Inr pp"
  shows "(path msg [''result'', ''scriptExecutionPrices'', ''memory''] = Inr (JStr m) \<longrightarrow>
            priceMem pp = ratio_of (split_on CHR ''/'' m))
       \<and> (path msg [''result'', ''scriptExecutionPrices'', ''cpu''] = Inr (JStr c) \<longrightarrow>
            priceStep pp = ratio_of (split_on CHR ''/'' c))"
proof -
  from assms obtain result m' c' mem steps where
    result: "get_prop msg ''result'' = Inr result"
    and m': "path result [''scriptExecutionPrices'', ''memory''] = Inr m'"
    and mem: "split_value m' CHR ''/'' = Inr mem"
    and c': "path result [''scriptExecutionPrices'', ''cpu''] = Inr c'"
    and steps: "split_value c' CHR ''/'' = Inr steps"
    and pp: "priceMem pp = ratio_of mem" "priceStep pp = ratio_of steps"
    unfolding getProtocolParameters_def
    by (elim andThenE) auto
  show ?thesis
    using result m' mem c' steps pp by (auto simp: split_value_def)
qed

text \<open>
  C8. In the parameters \<^verbatim>\<open>getProtocolParameters\<close> resolves with, a price that the
  message gives as numerator, \<^verbatim>\<open>/\<close>, denominator (in digits, both below \<open>2^53\<close>,
  the denominator positive) is the double nearest to the fraction: \<^verbatim>\<open>"10/1"\<close> gives
  10, \<^verbatim>\<open>"2/1"\<close> gives 2, and \<^verbatim>\<open>"577/10000"\<close> gives the double nearest to
  577/10000, the number that \<^verbatim>\<open>0.0577\<close> denotes in a program; it is
  \<open>2078861587994221 / 2^55\<close>.
\<close>

theorem execution_prices_are_ratios:
  assumes "getProtocolParameters msg = Inr pp"
  shows "(path msg [''result'', ''scriptExecutionPrices'', ''memory'']
            = Inr (JStr (show_nat a @ ''/'' @ show_nat b))
          \<and> a < 2 ^ 53 \<and> 0 < b \<and> b < 2 ^ 53
          \<longrightarrow> priceMem pp = to_double (of_nat a / of_nat b))
       \<and> (path msg [''result'', ''scriptExecutionPrices'', ''cpu'']
            = Inr (JStr (show_nat c @ ''/'' @ show_nat d))
          \<and> c < 2 ^ 53 \<and> 0 < d \<and> d < 2 ^ 53
          \<longrightarrow> priceStep pp = to_double (of_nat c / of_nat d))
       \<and> (path msg [''result'', ''scriptExecutionPrices'', ''memory''] = Inr (JStr ''10/1'')
          \<longrightarrow> priceMem pp = Num 10)
       \<and> (path msg [''result'', ''scriptExecutionPrices'', ''cpu''] = Inr (JStr ''2/1'')
          \<longrightarrow> priceStep pp = Num 2)
       \<and> (path msg [''result'', ''scriptExecutionPrices'', ''memory''] = Inr (JStr ''577/10000'')
          \<longrightarrow> priceMem pp = to_double (577 / 10000))
       \<and> to_double (577 / 10000) = Num (2078861587994221 / 2 ^ 55)"
proof (intro conjI impI)
  assume "path msg [''result'', ''scriptExecutionPrices'', ''memory'']
            = Inr (JStr (show_nat a @ ''/'' @ show_nat b))
          \<and> a < 2 ^ 53 \<and> 0 < b \<and> b < 2 ^ 53"
  then show "priceMem pp = to_double (of_nat a / of_nat b)"
    using price_of_message [OF assms, of "show_nat a @ ''/'' @ show_nat b"]
    by (simp only: ratio_of_fraction)
next
  assume "path msg [''result'', ''scriptExecutionPrices'', ''cpu'']
            = Inr (JStr (show_nat c @ ''/'' @ show_nat d))
          \<and> c < 2 ^ 53 \<and> 0 < d \<and> d < 2 ^ 53"
  then show "priceStep pp = to_double (of_nat c / of_nat d)"
    using price_of_message [OF assms, of _ "show_nat c @ ''/'' @ show_nat d"]
    by (simp only: ratio_of_fraction)
next
  assume "path msg [''result'', ''scriptExecutionPrices'', ''memory''] = Inr (JStr ''10/1'')"
  then show "priceMem pp = Num 10"
    using price_of_message [OF assms, of "''10/1''"] by (simp only: ratio_10_1)
next
  assume "path msg [''result'', ''scriptExecutionPrices'', ''cpu''] = Inr (JStr ''2/1'')"
  then show "priceStep pp = Num 2"
    using price_of_message [OF assms, of _ "''2/1''"] by (simp only: ratio_2_1)
next
  assume "path msg [''result'', ''scriptExecutionPrices'', ''memory''] = Inr (JStr ''577/10000'')"
  then show "priceMem pp = to_double (577 / 10000)"
    using price_of_message [OF assms, of "''577/10000''"] by (simp only: ratio_577_10000)
next
  show "to_double (577 / 10000) = Num (2078861587994221 / 2 ^ 55)"
    by (rule double_0_0577)
qed

theorem execution_prices_are_ratios_witness:
  "getProtocolParameters demo_parameters = Inr demo_parameters_result
   \<and> path demo_parameters [''result'', ''scriptExecutionPrices'', ''memory'']
       = Inr (JStr ''577/10000'')
   \<and> path demo_parameters [''result'', ''scriptExecutionPrices'', ''cpu''] = Inr (JStr ''2/1'')
   \<and> priceMem demo_parameters_result = to_double (577 / 10000)
   \<and> priceStep demo_parameters_result = Num 2"
proof -
  have m: "path demo_parameters [''result'', ''scriptExecutionPrices'', ''memory'']
             = Inr (JStr ''577/10000'')"
    and c: "path demo_parameters [''result'', ''scriptExecutionPrices'', ''cpu'']
             = Inr (JStr ''2/1'')"
    by (simp_all add: demo_parameters_def)
  note inst = execution_prices_are_ratios [OF demo_protocol]
  have "priceMem demo_parameters_result = to_double (577 / 10000)"
    using inst m by blast
  moreover have "priceStep demo_parameters_result = Num 2"
    using inst c by blast
  ultimately show ?thesis
    using demo_protocol m c by blast
qed

end
